theory Spec2Isabelle
  imports Main
begin

section \<open>Rotation of an RDS PostgreSQL user credential (rotate\_secret.py)\<close>

subsection \<open>Values, dictionaries and exceptions\<close>

text \<open>
  A secret's SecretString is a JSON object of scalar members (engine, host, username,
  password, dbname, port, masterarn, ssl).  A parsed secret is a Python \<^verbatim>\<open>dict\<close>
  from member names to such values; it is a map here, so keys are unique as in Python.
\<close>

datatype jval = JNull | JBool bool | JInt int | JStr string

type_synonym secret_dict = "string \<rightharpoonup> jval"

text \<open>
  Exceptions are values.  The three classes the handler raises itself carry the format
  string of the source's message (arguments of \<^verbatim>\<open>%\<close> left out), so that each
  raise site is told apart.  The others come from the Python runtime and from the AWS
  and database clients.
\<close>

datatype error =
    ValueError string
  | KeyError string
  | GenericException string
  | AttributeError
  | TypeError
  | IndexError
  | JSONDecodeError
  | ParamValidationError
  | ResourceNotFoundException
  | ClientError string

text \<open>Python's \<^verbatim>\<open>==\<close> on scalars: \<^verbatim>\<open>bool\<close> is a subclass of \<^verbatim>\<open>int\<close>.\<close>

fun py_eq :: "jval \<Rightarrow> jval \<Rightarrow> bool" where
  "py_eq (JBool a) (JInt n) = ((if a then 1 else 0) = n)"
| "py_eq (JInt n) (JBool a) = (n = (if a then 1 else 0))"
| "py_eq x y = (x = y)"

subsection \<open>String helpers\<close>

text \<open>\<^verbatim>\<open>str.endswith\<close>.\<close>

definition endswith :: "string \<Rightarrow> string \<Rightarrow> bool" where
  "endswith s suf \<longleftrightarrow>
     length suf \<le> length s \<and> drop (length s - length suf) s = suf"

text \<open>
  \<^verbatim>\<open>str.lower\<close> on the letters A to Z.  Other characters are left as they are; none
  of them lowers to a letter of \<^verbatim>\<open>true\<close> or \<^verbatim>\<open>false\<close> or of a tag name, the only
  strings a lowered value is compared with.
\<close>

definition lower_char :: "char \<Rightarrow> char" where
  "lower_char c =
     (case map_of (zip ''ABCDEFGHIJKLMNOPQRSTUVWXYZ'' ''abcdefghijklmnopqrstuvwxyz'') c of
        Some l \<Rightarrow> l
      | None \<Rightarrow> c)"

definition lower :: "string \<Rightarrow> string" where
  "lower s = map lower_char s"

text \<open>Two strings are equal ignoring case when they are equal once lowered.\<close>

definition equals_ignoring_case :: "string \<Rightarrow> string \<Rightarrow> bool" where
  "equals_ignoring_case a b \<longleftrightarrow> lower a = lower b"

subsection \<open>get\_alt\_username\<close>

definition clone_suffix :: string where
  "clone_suffix = ''_clone''"

text \<open>
  \<^verbatim>\<open>current_username[:(len(clone_suffix) * -1)]\<close> drops the last six characters; the
  slice is taken only when the name ends with the suffix, so it has at least six.
\<close>

definition get_alt_username :: "string \<Rightarrow> error + string" where
  "get_alt_username current_username =
     (if endswith current_username clone_suffix
      then Inr (take (length current_username - length clone_suffix) current_username)
      else
        (let new_username = current_username @ clone_suffix in
         if length new_username > 63
         then Inl (ValueError
           ''Unable to clone user, username length with _clone appended would exceed 63 characters'')
         else Inr new_username))"

subsection \<open>get\_ssl\_config\<close>

definition get_ssl_config :: "secret_dict \<Rightarrow> bool \<times> bool" where
  "get_ssl_config secret_dict =
     (case secret_dict ''ssl'' of
        None \<Rightarrow> (True, True)
      | Some (JBool b) \<Rightarrow> (b, False)
      | Some (JStr s) \<Rightarrow>
          (let ssl = lower s in
           if ssl = ''true'' then (True, False)
           else if ssl = ''false'' then (False, False)
           else (True, True))
      | Some _ \<Rightarrow> (True, True))"

subsection \<open>Responses of the AWS clients\<close>

text \<open>
  \<^verbatim>\<open>describe_secret\<close>: the members of the response the handler reads.  A member that
  the response may lack is an option.  \<^verbatim>\<open>VersionIdsToStages\<close> keeps the order of the
  Python dict, which the loop of \<open>finish_secret\<close> follows.
\<close>

record secret_metadata =
  RotationEnabled :: "bool option"
  VersionIdsToStages :: "(string \<times> string list) list option"
  Tags :: "(string \<times> string) list option"

text \<open>
  \<^verbatim>\<open>describe_db_instances\<close> and \<^verbatim>\<open>describe_db_clusters\<close>: one record per instance
  or cluster, with the members the handler reads; \<open>other_keys\<close> names the members it
  never reads, which only matter for the truth value of the dict.
\<close>

record db_instance =
  i_Endpoint :: "(string \<times> int) option"
  i_Engine :: "string option"
  i_ReadReplicaSourceDBInstanceIdentifier :: "string option"
  i_DBClusterIdentifier :: "string option"
  i_other_keys :: "string list"

record db_cluster =
  c_Endpoint :: "string option"
  c_Port :: "int option"
  c_Engine :: "string option"
  c_ReaderEndpoint :: "string option"
  c_DBClusterMembers :: "(string \<times> bool) list option"
  c_other_keys :: "string list"

text \<open>Truth value of a response dict: false exactly when it has no member at all.\<close>

definition instance_is_empty :: "db_instance \<Rightarrow> bool" where
  "instance_is_empty i \<longleftrightarrow>
     i_Endpoint i = None \<and> i_Engine i = None \<and>
     i_ReadReplicaSourceDBInstanceIdentifier i = None \<and>
     i_DBClusterIdentifier i = None \<and> i_other_keys i = []"

definition cluster_is_empty :: "db_cluster \<Rightarrow> bool" where
  "cluster_is_empty c \<longleftrightarrow>
     c_Endpoint c = None \<and> c_Port c = None \<and> c_Engine c = None \<and>
     c_ReaderEndpoint c = None \<and> c_DBClusterMembers c = None \<and> c_other_keys c = []"

subsection \<open>Calls to the outside, and the world that answers them\<close>

record conn_args =
  ca_host :: jval
  ca_port :: int
  ca_dbname :: jval
  ca_user :: jval
  ca_password :: jval
  ca_sslmode :: string

text \<open>A psycopg2 connection is known by the arguments it was opened with.\<close>

type_synonym connection = conn_args

record password_request =
  ExcludeCharacters :: string
  PasswordLength :: int
  ExcludeNumbers :: bool
  ExcludePunctuation :: bool
  ExcludeUppercase :: bool
  ExcludeLowercase :: bool
  RequireEachIncludedType :: bool

text \<open>
  Every call the handler makes to Secrets Manager, to RDS and to the database is an
  event; a run appends its events to the trace in the order of the calls.  The
  \<^verbatim>\<open>SecretString\<close> of \<open>PutSecretValue\<close> is \<^verbatim>\<open>json.dumps\<close> of the dictionary given here.
\<close>

datatype event =
    DescribeSecret string
  | GetSecretValue string "string option" string
  | GetRandomPassword password_request
  | PutSecretValue string string secret_dict "string list"
  | UpdateSecretVersionStage string string string string
  | DescribeDBInstances string
  | DescribeDBClusters string
  | Connect conn_args
  | Execute connection string "jval list"
  | Commit connection
  | Close connection

type_synonym trace = "event list"

text \<open>
  The world gives the answer to each call.  An answer may depend on everything that
  happened before (the trace), so that two equal calls may be answered differently.
  \<open>get_secret_value\<close> answers with the \<^verbatim>\<open>SecretString\<close> (absent for a binary secret);
  \<open>psycopg2_connect\<close> tells whether the connection opens; \<open>execute\<close> answers with the
  rows the cursor holds.  \<open>json_loads\<close>, \<open>int_of_str\<close> (\<^verbatim>\<open>int\<close> of a string),
  \<open>str_of_int\<close> (\<^verbatim>\<open>str\<close> of an int) and \<open>environ\<close> belong to the Python runtime.
\<close>

record world =
  describe_secret :: "trace \<Rightarrow> string \<Rightarrow> error + secret_metadata"
  get_secret_value :: "trace \<Rightarrow> string \<Rightarrow> string option \<Rightarrow> string \<Rightarrow> error + string option"
  random_password :: "trace \<Rightarrow> password_request \<Rightarrow> error + string"
  put_secret_value :: "trace \<Rightarrow> string \<Rightarrow> string \<Rightarrow> secret_dict \<Rightarrow> string list \<Rightarrow> error + unit"
  update_secret_version_stage ::
    "trace \<Rightarrow> string \<Rightarrow> string \<Rightarrow> string \<Rightarrow> string \<Rightarrow> error + unit"
  describe_db_instances :: "trace \<Rightarrow> string \<Rightarrow> error + db_instance list"
  describe_db_clusters :: "trace \<Rightarrow> string \<Rightarrow> error + db_cluster list"
  psycopg2_connect :: "trace \<Rightarrow> conn_args \<Rightarrow> bool"
  execute :: "trace \<Rightarrow> connection \<Rightarrow> string \<Rightarrow> jval list \<Rightarrow> error + jval list list"
  commit :: "trace \<Rightarrow> connection \<Rightarrow> error + unit"
  json_loads :: "string \<Rightarrow> secret_dict option"
  int_of_str :: "string \<Rightarrow> int option"
  str_of_int :: "int \<Rightarrow> string"
  environ :: "string \<rightharpoonup> string"

text \<open>
  A computation takes the trace so far and gives its result, an exception (\<open>Inl\<close>) or a
  value (\<open>Inr\<close>), with the extended trace.
\<close>

type_synonym 'a io = "trace \<Rightarrow> (error + 'a) \<times> trace"

definition io_return :: "'a \<Rightarrow> 'a io" where
  "io_return x = (\<lambda>tr. (Inr x, tr))"

definition io_raise :: "error \<Rightarrow> 'a io" where
  "io_raise e = (\<lambda>tr. (Inl e, tr))"

definition io_lift :: "error + 'a \<Rightarrow> 'a io" where
  "io_lift r = (\<lambda>tr. (r, tr))"

definition io_bind :: "'a io \<Rightarrow> ('a \<Rightarrow> 'b io) \<Rightarrow> 'b io" where
  "io_bind m f =
     (\<lambda>tr. case m tr of (Inl e, tr') \<Rightarrow> (Inl e, tr') | (Inr x, tr') \<Rightarrow> f x tr')"

definition io_call :: "event \<Rightarrow> (trace \<Rightarrow> error + 'a) \<Rightarrow> 'a io" where
  "io_call ev answer = (\<lambda>tr. (answer tr, tr @ [ev]))"

text \<open>\<^verbatim>\<open>try: body finally: fin\<close>, for a \<open>fin\<close> that does not raise.\<close>

definition io_finally :: "'a io \<Rightarrow> unit io \<Rightarrow> 'a io" where
  "io_finally body fin =
     (\<lambda>tr. case body tr of (r, tr') \<Rightarrow> (case fin tr' of (_, tr'') \<Rightarrow> (r, tr'')))"

subsection \<open>Reading a dictionary\<close>

text \<open>\<^verbatim>\<open>d[k]\<close> raises KeyError on a missing key.\<close>

definition get_item :: "secret_dict \<Rightarrow> string \<Rightarrow> error + jval" where
  "get_item d k = (case d k of None \<Rightarrow> Inl (KeyError k) | Some v \<Rightarrow> Inr v)"

text \<open>A string method called on a value that is not a string raises AttributeError.\<close>

definition as_str :: "jval \<Rightarrow> error + string" where
  "as_str v = (case v of JStr s \<Rightarrow> Inr s | _ \<Rightarrow> Inl AttributeError)"

definition sum_bind :: "error + 'a \<Rightarrow> ('a \<Rightarrow> error + 'b) \<Rightarrow> error + 'b" where
  "sum_bind r f = (case r of Inl e \<Rightarrow> Inl e | Inr x \<Rightarrow> f x)"

text \<open>\<^verbatim>\<open>s.split(".")\<close>: at least one label, one more for each dot.\<close>

fun split_dot :: "string \<Rightarrow> string list" where
  "split_dot [] = [Nil]"
| "split_dot (c # cs) =
     (if c = CHR ''.'' then [] # split_dot cs
      else (case split_dot cs of [] \<Rightarrow> [c # Nil] | l # ls \<Rightarrow> (c # l) # ls))"

text \<open>\<^verbatim>\<open>sub in s\<close> on strings.\<close>

fun str_contains :: "string \<Rightarrow> string \<Rightarrow> bool" where
  "str_contains sub [] = (sub = [])"
| "str_contains sub (c # cs) =
     (take (length sub) (c # cs) = sub \<or> str_contains sub cs)"

text \<open>\<^verbatim>\<open>int(v)\<close> and \<^verbatim>\<open>str(v)\<close> (as \<^verbatim>\<open>%s\<close> formats a value).\<close>

definition py_int :: "world \<Rightarrow> jval \<Rightarrow> error + int" where
  "py_int w v =
     (case v of
        JInt n \<Rightarrow> Inr n
      | JBool b \<Rightarrow> Inr (if b then 1 else 0)
      | JStr s \<Rightarrow>
          (case int_of_str w s of
             None \<Rightarrow> Inl (ValueError ''invalid literal for int() with base 10'')
           | Some n \<Rightarrow> Inr n)
      | JNull \<Rightarrow> Inl TypeError)"

definition py_str :: "world \<Rightarrow> jval \<Rightarrow> string" where
  "py_str w v =
     (case v of
        JStr s \<Rightarrow> s
      | JInt n \<Rightarrow> str_of_int w n
      | JBool b \<Rightarrow> (if b then ''True'' else ''False'')
      | JNull \<Rightarrow> ''None'')"

subsection \<open>The RDS control plane\<close>

text \<open>
  \<open>get_instance_info_from_rds_api\<close>: any exception of the API call is raised again as a
  plain \<^verbatim>\<open>Exception\<close>; an empty list of instances raises ValueError; otherwise the
  first instance is returned.
\<close>

definition get_instance_info_from_rds_api :: "world \<Rightarrow> string \<Rightarrow> db_instance io" where
  "get_instance_info_from_rds_api w instance_id =
     (\<lambda>tr. case io_call (DescribeDBInstances instance_id)
                    (\<lambda>t. describe_db_instances w t instance_id) tr of
        (Inl err, tr') \<Rightarrow>
          (Inl (GenericException
            ''Encountered API error while fetching connection parameters from DescribeDBInstances RDS API: %s''),
           tr')
      | (Inr instances, tr') \<Rightarrow>
          (case instances of
             [] \<Rightarrow>
               (Inl (ValueError
                 ''%s is not a valid DB Instance ARN. No Instances found when using DescribeDBInstances RDS API to get connection params.''),
                tr')
           | i # _ \<Rightarrow> (Inr i, tr')))"

definition get_cluster_info_from_rds_api :: "world \<Rightarrow> string \<Rightarrow> db_cluster io" where
  "get_cluster_info_from_rds_api w cluster_id =
     (\<lambda>tr. case io_call (DescribeDBClusters cluster_id)
                    (\<lambda>t. describe_db_clusters w t cluster_id) tr of
        (Inl err, tr') \<Rightarrow>
          (Inl (GenericException
            ''Encountered API error while fetching connection parameters from DescribeDBClusters RDS API: %s''),
           tr')
      | (Inr clusters, tr') \<Rightarrow>
          (case clusters of
             [] \<Rightarrow>
               (Inl (ValueError
                 ''%s is not a valid DB Cluster ARN. No Clusters found when using DescribeDBClusters RDS API to get connection params.''),
                tr')
           | c # _ \<Rightarrow> (Inr c, tr')))"

text \<open>
  \<open>get_cluster_info_from_master_host\<close> returns a dict with the keys
  \<^verbatim>\<open>reader_endpoint\<close> and \<^verbatim>\<open>instance_ids\<close>, or the empty dict (\<open>None\<close> here).
\<close>

record replica_info =
  reader_endpoint :: string
  instance_ids :: "(string \<times> bool) list"

text \<open>\<^verbatim>\<open>xs[1]\<close> of a list of labels.\<close>

definition second_label :: "string list \<Rightarrow> error + string" where
  "second_label ls = (case ls of _ # l # _ \<Rightarrow> Inr l | _ \<Rightarrow> Inl IndexError)"

definition get_cluster_info_from_master_host ::
    "world \<Rightarrow> secret_dict \<Rightarrow> replica_info option io" where
  "get_cluster_info_from_master_host w master_dict =
     io_bind (io_lift (sum_bind (get_item master_dict ''host'') as_str)) (\<lambda>master_host.
     let master_instance_id = hd (split_dot master_host) in
     io_bind (io_lift (second_label (split_dot master_host))) (\<lambda>label.
     io_bind
       (if str_contains ''cluster'' label
        then io_bind (get_cluster_info_from_rds_api w master_instance_id)
               (\<lambda>c. io_return (Some c))
        else
          io_bind (get_instance_info_from_rds_api w master_instance_id) (\<lambda>current_instance.
          if instance_is_empty current_instance \<or>
             i_DBClusterIdentifier current_instance = None
          then io_return None
          else
            (case i_DBClusterIdentifier current_instance of
               None \<Rightarrow> io_return None
             | Some cluster_id \<Rightarrow>
                 io_bind (get_cluster_info_from_rds_api w cluster_id)
                   (\<lambda>c. io_return (Some c)))))
       (\<lambda>found.
     case found of
       None \<Rightarrow> io_return None
     | Some cluster_info \<Rightarrow>
         if cluster_is_empty cluster_info then io_return None
         else io_return (Some \<lparr>
           reader_endpoint =
             (case c_ReaderEndpoint cluster_info of None \<Rightarrow> [] | Some e \<Rightarrow> e),
           instance_ids =
             (case c_DBClusterMembers cluster_info of None \<Rightarrow> [] | Some ms \<Rightarrow> ms)\<rparr>))))"

text \<open>
  \<open>is_rds_replica_database\<close>.  The comparison of the master's identifier with
  \<^verbatim>\<open>current_instance.get('ReadReplicaSourceDBInstanceIdentifier')\<close> is false when the
  member is absent.
\<close>

definition is_rds_replica_database ::
    "world \<Rightarrow> secret_dict \<Rightarrow> secret_dict \<Rightarrow> bool io" where
  "is_rds_replica_database w replica_dict master_dict =
     io_bind (io_lift (sum_bind (get_item replica_dict ''host'') as_str)) (\<lambda>replica_host.
     let replica_instance_id = hd (split_dot replica_host) in
     io_bind (io_lift (sum_bind (get_item master_dict ''host'') as_str)) (\<lambda>master_host.
     let master_instance_id = hd (split_dot master_host) in
     io_bind (io_lift (get_item master_dict ''engine'')) (\<lambda>engine.
     if py_eq engine (JStr ''postgres'') then
       io_bind (get_instance_info_from_rds_api w replica_instance_id) (\<lambda>current_instance.
       if instance_is_empty current_instance then io_return False
       else io_return
         (i_ReadReplicaSourceDBInstanceIdentifier current_instance = Some master_instance_id))
     else if py_eq engine (JStr ''aurora-postgresql'') then
       io_bind (get_cluster_info_from_master_host w master_dict) (\<lambda>found.
       case found of
         None \<Rightarrow> io_return False
       | Some replica_info \<Rightarrow>
           (let is_reader_endpoint = (replica_host = reader_endpoint replica_info);
                is_reader_instance =
                  list_ex (\<lambda>(instance_id, is_writer).
                      replica_instance_id = instance_id \<and> \<not> is_writer)
                    (instance_ids replica_info)
            in io_return (is_reader_endpoint \<or> is_reader_instance)))
     else io_return False)))"

text \<open>
  \<open>fetch_instance_arn_from_system_tags\<close> returns a dict with the keys
  \<^verbatim>\<open>ARN_SYSTEM_TAG\<close> and \<^verbatim>\<open>ARN\<close> (a pair here), or the empty dict (\<open>None\<close>).  The
  loop over the tags does not stop at the first match: the last matching tag stays.
\<close>

definition MAX_RDS_DB_INSTANCE_ARN_LENGTH :: nat where
  "MAX_RDS_DB_INSTANCE_ARN_LENGTH = 256"

fun scan_tags :: "(string \<times> string) list \<Rightarrow> (string \<times> string) option \<Rightarrow> (string \<times> string) option" where
  "scan_tags [] db_instance_info = db_instance_info"
| "scan_tags ((key, val) # tags) db_instance_info =
     scan_tags tags
       (if lower key = ''aws:rds:primarydbinstancearn'' \<or> lower key = ''aws:rds:primarydbclusterarn''
        then Some (lower key, val)
        else db_instance_info)"

definition fetch_instance_arn_from_system_tags ::
    "world \<Rightarrow> string \<Rightarrow> (string \<times> string) option io" where
  "fetch_instance_arn_from_system_tags w secret_arn =
     io_bind (io_call (DescribeSecret secret_arn) (\<lambda>t. describe_secret w t secret_arn))
       (\<lambda>metadata.
     case Tags metadata of
       None \<Rightarrow> io_return None
     | Some tags \<Rightarrow>
         (case scan_tags tags None of
            None \<Rightarrow> io_return None
          | Some (tag, arn) \<Rightarrow>
              if length arn > MAX_RDS_DB_INSTANCE_ARN_LENGTH
              then io_raise (ValueError
                ''%s is not a valid DB Instance ARN. It exceeds the maximum length of %d.'')
              else io_return (Some (tag, arn))))"

definition get_connection_params_from_rds_api ::
    "world \<Rightarrow> secret_dict \<Rightarrow> string \<times> string \<Rightarrow> secret_dict io" where
  "get_connection_params_from_rds_api w master_dict master_instance_info =
     (case master_instance_info of (tag, arn) \<Rightarrow>
      if tag = ''aws:rds:primarydbinstancearn'' then
        io_bind (get_instance_info_from_rds_api w arn) (\<lambda>primary_instance.
        case i_Endpoint primary_instance of
          None \<Rightarrow> io_raise (KeyError ''Endpoint'')
        | Some (address, port) \<Rightarrow>
            (case i_Engine primary_instance of
               None \<Rightarrow> io_raise (KeyError ''Engine'')
             | Some engine \<Rightarrow>
                 io_return (master_dict(''host'' \<mapsto> JStr address, ''port'' \<mapsto> JInt port,
                   ''engine'' \<mapsto> JStr engine))))
      else if tag = ''aws:rds:primarydbclusterarn'' then
        io_bind (get_cluster_info_from_rds_api w arn) (\<lambda>primary_instance.
        case c_Endpoint primary_instance of
          None \<Rightarrow> io_raise (KeyError ''Endpoint'')
        | Some endpoint \<Rightarrow>
            (case c_Port primary_instance of
               None \<Rightarrow> io_raise (KeyError ''Port'')
             | Some port \<Rightarrow>
                 (case c_Engine primary_instance of
                    None \<Rightarrow> io_raise (KeyError ''Engine'')
                  | Some engine \<Rightarrow>
                      io_return (master_dict(''host'' \<mapsto> JStr endpoint, ''port'' \<mapsto> JInt port,
                        ''engine'' \<mapsto> JStr engine)))))
      else io_return master_dict)"

subsection \<open>get\_secret\_dict\<close>

text \<open>
  The first required field that is missing raises KeyError; the message names the
  field.  A token that is \<^verbatim>\<open>None\<close> or empty is false in \<^verbatim>\<open>if token\<close>.
\<close>

definition required_fields :: "string list" where
  "required_fields = [''host'', ''username'', ''password'', ''engine'']"

fun check_required :: "string list \<Rightarrow> secret_dict \<Rightarrow> error + unit" where
  "check_required [] secret_dict = Inr ()"
| "check_required (field # others) secret_dict =
     (if secret_dict field = None
      then Inl (KeyError (field @ '' key is missing from secret JSON''))
      else check_required others secret_dict)"

definition supported_engines :: "string list" where
  "supported_engines = [''postgres'', ''aurora-postgresql'']"

definition get_secret_dict ::
    "world \<Rightarrow> string \<Rightarrow> string \<Rightarrow> string option \<Rightarrow> bool \<Rightarrow> secret_dict io" where
  "get_secret_dict w arn stage token master_secret =
     (let version_id = (if token = None \<or> token = Some [] then None else token) in
      io_bind (io_call (GetSecretValue arn version_id stage)
                 (\<lambda>t. get_secret_value w t arn version_id stage)) (\<lambda>secret.
      io_bind (io_lift (case secret of
                          None \<Rightarrow> Inl (KeyError ''SecretString'')
                        | Some plaintext \<Rightarrow> Inr plaintext)) (\<lambda>plaintext.
      io_bind (io_lift (case json_loads w plaintext of
                          None \<Rightarrow> Inl JSONDecodeError
                        | Some d \<Rightarrow> Inr d)) (\<lambda>parsed.
      io_bind
        (if master_secret \<and> dom parsed = {''username'', ''password''}
         then io_bind (fetch_instance_arn_from_system_tags w arn) (\<lambda>db_instance_info.
              case db_instance_info of
                None \<Rightarrow> io_return parsed
              | Some info \<Rightarrow> get_connection_params_from_rds_api w parsed info)
         else io_return parsed) (\<lambda>secret_dict.
      io_bind (io_lift (check_required required_fields secret_dict)) (\<lambda>_.
      io_bind (io_lift (get_item secret_dict ''engine'')) (\<lambda>engine.
      if \<not> list_ex (\<lambda>e. py_eq engine (JStr e)) supported_engines
      then io_raise (KeyError
        ''Database engine must be set to 'postgres' in order to use this rotation lambda'')
      else io_return secret_dict)))))))"

subsection \<open>Connecting to the database\<close>

text \<open>
  \<open>connect_and_authenticate\<close> never raises: every exception inside its \<^verbatim>\<open>try\<close>, a
  missing key of the dictionary included, gives \<^verbatim>\<open>None\<close>.  Only when the arguments
  could be built is the driver called.
\<close>

definition connect_and_authenticate ::
    "world \<Rightarrow> secret_dict \<Rightarrow> int \<Rightarrow> jval \<Rightarrow> bool \<Rightarrow> connection option io" where
  "connect_and_authenticate w secret_dict port dbname use_ssl =
     (case (secret_dict ''host'', secret_dict ''username'', secret_dict ''password'') of
        (Some host, Some username, Some password) \<Rightarrow>
          (let conn_args = \<lparr>ca_host = host, ca_port = port, ca_dbname = dbname,
                 ca_user = username, ca_password = password,
                 ca_sslmode = (if use_ssl then ''require'' else ''prefer'')\<rparr>
           in (\<lambda>tr. (Inr (if psycopg2_connect w tr conn_args then Some conn_args else None),
                      tr @ [Connect conn_args])))
      | _ \<Rightarrow> io_return None)"

definition get_connection :: "world \<Rightarrow> secret_dict \<Rightarrow> connection option io" where
  "get_connection w secret_dict =
     io_bind (io_lift (case secret_dict ''port'' of
                         None \<Rightarrow> Inr 5432
                       | Some p \<Rightarrow> py_int w p)) (\<lambda>port.
     let dbname = (case secret_dict ''dbname'' of
                     None \<Rightarrow> JStr ''postgres''
                   | Some JNull \<Rightarrow> JStr ''postgres''
                   | Some v \<Rightarrow> v);
         (use_ssl, fall_back) = get_ssl_config secret_dict
     in
     io_bind (connect_and_authenticate w secret_dict port dbname use_ssl) (\<lambda>conn.
     if conn \<noteq> None \<or> \<not> fall_back then io_return conn
     else connect_and_authenticate w secret_dict port dbname False))"

definition conn_close :: "connection \<Rightarrow> unit io" where
  "conn_close conn = (\<lambda>tr. (Inr (), tr @ [Close conn]))"

definition cur_execute :: "world \<Rightarrow> connection \<Rightarrow> string \<Rightarrow> jval list \<Rightarrow> jval list list io" where
  "cur_execute w conn sql params = io_call (Execute conn sql params) (\<lambda>t. execute w t conn sql params)"

definition conn_commit :: "world \<Rightarrow> connection \<Rightarrow> unit io" where
  "conn_commit w conn = io_call (Commit conn) (\<lambda>t. commit w t conn)"

text \<open>\<^verbatim>\<open>cur.fetchone()[0]\<close>: \<^verbatim>\<open>fetchone\<close> gives \<^verbatim>\<open>None\<close> when there is no row.\<close>

definition fetchone_0 :: "jval list list \<Rightarrow> error + jval" where
  "fetchone_0 rows =
     (case rows of
        [] \<Rightarrow> Inl TypeError
      | row # _ \<Rightarrow> (case row of [] \<Rightarrow> Inl IndexError | v # _ \<Rightarrow> Inr v))"

subsection \<open>The random password\<close>

definition get_environment_bool :: "world \<Rightarrow> string \<Rightarrow> bool \<Rightarrow> bool" where
  "get_environment_bool w variable_name default_value =
     (let variable = (case environ w variable_name of
                        None \<Rightarrow> (if default_value then ''True'' else ''False'')
                      | Some v \<Rightarrow> v)
      in lower variable \<in> set [''true'', ''1'', ''y'', ''yes''])"

definition get_random_password :: "world \<Rightarrow> string io" where
  "get_random_password w =
     io_bind (io_lift (case environ w ''PASSWORD_LENGTH'' of
                         None \<Rightarrow> Inr 32
                       | Some l \<Rightarrow> py_int w (JStr l))) (\<lambda>password_length.
     let request = \<lparr>
           ExcludeCharacters =
             (case environ w ''EXCLUDE_CHARACTERS'' of
                None \<Rightarrow> [CHR '':'', CHR ''/'', CHR ''@'', CHR 0x22, CHR 0x27, CHR 0x5C]
              | Some cs \<Rightarrow> cs),
           PasswordLength = password_length,
           ExcludeNumbers = get_environment_bool w ''EXCLUDE_NUMBERS'' False,
           ExcludePunctuation = get_environment_bool w ''EXCLUDE_PUNCTUATION'' False,
           ExcludeUppercase = get_environment_bool w ''EXCLUDE_UPPERCASE'' False,
           ExcludeLowercase = get_environment_bool w ''EXCLUDE_LOWERCASE'' False,
           RequireEachIncludedType = get_environment_bool w ''REQUIRE_EACH_INCLUDED_TYPE'' True\<rparr>
     in io_call (GetRandomPassword request) (\<lambda>t. random_password w t request))"

subsection \<open>The four steps\<close>

text \<open>
  \<open>create_secret\<close>.  Only \<^verbatim>\<open>ResourceNotFoundException\<close> from reading the pending
  version is caught; the handler of that exception is the one place that calls
  \<^verbatim>\<open>put_secret_value\<close>.
\<close>

definition create_secret :: "world \<Rightarrow> string \<Rightarrow> string \<Rightarrow> unit io" where
  "create_secret w arn token =
     io_bind (get_secret_dict w arn ''AWSCURRENT'' None False) (\<lambda>current_dict.
     (\<lambda>tr. case get_secret_dict w arn ''AWSPENDING'' (Some token) False tr of
        (Inr _, tr') \<Rightarrow> (Inr (), tr')
      | (Inl e, tr') \<Rightarrow>
          if e = ResourceNotFoundException then
            io_bind (io_lift (sum_bind (sum_bind (get_item current_dict ''username'') as_str)
                        get_alt_username)) (\<lambda>username.
            io_bind (get_random_password w) (\<lambda>password.
            let new_dict = current_dict(''username'' \<mapsto> JStr username,
                  ''password'' \<mapsto> JStr password)
            in io_call (PutSecretValue arn token new_dict [''AWSPENDING''])
                 (\<lambda>t. put_secret_value w t arn token new_dict [''AWSPENDING'']))) tr'
          else (Inl e, tr')))"

text \<open>
  \<open>set_secret\<close>, lines 196 to 225: log in with the master credentials and, inside
  \<^verbatim>\<open>try ... finally: conn.close()\<close>, create the pending role or alter its password.
\<close>

definition set_secret_as_master ::
    "world \<Rightarrow> secret_dict \<Rightarrow> secret_dict \<Rightarrow> secret_dict \<Rightarrow> unit io" where
  "set_secret_as_master w current_dict pending_dict master_dict =
     io_bind (get_connection w master_dict) (\<lambda>found.
     case found of
       None \<Rightarrow> io_raise (ValueError
         ''Unable to log into database using credentials in master secret %s'')
     | Some conn \<Rightarrow>
         io_finally
           (io_bind (io_lift (get_item pending_dict ''username'')) (\<lambda>pending_user.
            io_bind (cur_execute w conn ''SELECT quote_ident(%s)'' [pending_user]) (\<lambda>rows.
            io_bind (io_lift (fetchone_0 rows)) (\<lambda>pending_username.
            io_bind (io_lift (get_item current_dict ''username'')) (\<lambda>current_user.
            io_bind (cur_execute w conn ''SELECT quote_ident(%s)'' [current_user]) (\<lambda>rows.
            io_bind (io_lift (fetchone_0 rows)) (\<lambda>current_username.
            io_bind (cur_execute w conn ''SELECT 1 FROM pg_roles where rolname = %s''
                       [pending_user]) (\<lambda>roles.
            io_bind
              (if length roles = 0 then
                 io_bind (io_lift (get_item pending_dict ''password'')) (\<lambda>password.
                 io_bind (cur_execute w conn
                            (''CREATE ROLE '' @ py_str w pending_username @
                             '' WITH LOGIN PASSWORD %s'') [password]) (\<lambda>_.
                 io_bind (cur_execute w conn
                            (''GRANT '' @ py_str w current_username @ '' TO '' @
                             py_str w pending_username) []) (\<lambda>_.
                 io_return ())))
               else
                 io_bind (io_lift (get_item pending_dict ''password'')) (\<lambda>password.
                 io_bind (cur_execute w conn
                            (''ALTER USER '' @ py_str w pending_username @
                             '' WITH PASSWORD %s'') [password]) (\<lambda>_.
                 io_return ()))) (\<lambda>_.
            conn_commit w conn)))))))))
           (conn_close conn))"

text \<open>
  \<open>set_secret\<close>, lines 153 to 194: the checks that come before the master login.
  \<open>get_alt_username\<close> is called on \<^verbatim>\<open>current_dict['username']\<close> and its result
  compared with \<^verbatim>\<open>pending_dict['username']\<close>.  The replica check is made only when
  the two hosts differ (\<^verbatim>\<open>and\<close> evaluates its right operand only then).
\<close>

definition set_secret :: "world \<Rightarrow> string \<Rightarrow> string \<Rightarrow> unit io" where
  "set_secret w arn token =
     io_bind (get_secret_dict w arn ''AWSCURRENT'' None False) (\<lambda>current_dict.
     io_bind (get_secret_dict w arn ''AWSPENDING'' (Some token) False) (\<lambda>pending_dict.
     io_bind (get_connection w current_dict) (\<lambda>found.
     case found of
       None \<Rightarrow> io_raise (ValueError
         ''Unable to log into database using current credentials for secret %s'')
     | Some conn \<Rightarrow>
     io_bind (conn_close conn) (\<lambda>_.
     io_bind (io_lift (sum_bind (sum_bind (get_item current_dict ''username'') as_str)
                 get_alt_username)) (\<lambda>alt_username.
     io_bind (io_lift (get_item pending_dict ''username'')) (\<lambda>pending_user.
     if \<not> py_eq (JStr alt_username) pending_user
     then io_raise (ValueError
       ''Attempting to modify user %s other than current user or clone %s'')
     else
     io_bind (io_lift (get_item current_dict ''host'')) (\<lambda>current_host.
     io_bind (io_lift (get_item pending_dict ''host'')) (\<lambda>pending_host.
     if \<not> py_eq current_host pending_host
     then io_raise (ValueError
       ''Attempting to modify user for host %s other than current host %s'')
     else
     io_bind (get_connection w current_dict) (\<lambda>found.
     case found of
       None \<Rightarrow> io_raise (ValueError
         ''Unable to log into database using current credentials for secret %s'')
     | Some conn \<Rightarrow>
     io_bind (conn_close conn) (\<lambda>_.
     io_bind (io_lift (get_item current_dict ''masterarn'')) (\<lambda>masterarn.
     io_bind (io_lift (case masterarn of
                         JStr a \<Rightarrow> Inr a
                       | _ \<Rightarrow> Inl ParamValidationError)) (\<lambda>master_arn.
     io_bind (get_secret_dict w master_arn ''AWSCURRENT'' None True) (\<lambda>fetched.
     let master_dict = fetched(''dbname'' \<mapsto>
           (case current_dict ''dbname'' of None \<Rightarrow> JNull | Some v \<Rightarrow> v))
     in
     io_bind (io_lift (get_item current_dict ''host'')) (\<lambda>current_host.
     io_bind (io_lift (get_item master_dict ''host'')) (\<lambda>master_host.
     io_bind
       (if \<not> py_eq current_host master_host
        then io_bind (is_rds_replica_database w current_dict master_dict)
               (\<lambda>is_replica. io_return (\<not> is_replica))
        else io_return False) (\<lambda>mismatch.
     if mismatch
     then io_raise (ValueError
       ''Current database host %s is not the same host as/rds replica of master %s'')
     else set_secret_as_master w current_dict pending_dict master_dict))))))))))))))))"

definition test_secret :: "world \<Rightarrow> string \<Rightarrow> string \<Rightarrow> unit io" where
  "test_secret w arn token =
     io_bind (get_secret_dict w arn ''AWSPENDING'' (Some token) False) (\<lambda>pending_dict.
     io_bind (get_connection w pending_dict) (\<lambda>found.
     case found of
       Some conn \<Rightarrow>
         io_finally
           (io_bind (cur_execute w conn ''SELECT NOW()'' []) (\<lambda>_. conn_commit w conn))
           (conn_close conn)
     | None \<Rightarrow> io_raise (ValueError
         ''Unable to log into database with pending secret of secret ARN %s'')))"

text \<open>
  \<open>finish_secret\<close>.  The loop goes through the versions in the order of the dict and
  stops at the first one staged \<^verbatim>\<open>AWSCURRENT\<close>: it returns from the function when
  that version is the token, and breaks with \<open>current_version\<close> set otherwise.  When no
  version is staged \<^verbatim>\<open>AWSCURRENT\<close> the loop ends with \<open>current_version\<close> still
  \<^verbatim>\<open>None\<close>.
\<close>

datatype loop_exit = Returned | Fell_through "string option"

fun find_current_version :: "string \<Rightarrow> (string \<times> string list) list \<Rightarrow> loop_exit" where
  "find_current_version token [] = Fell_through None"
| "find_current_version token ((version, stages) # versions) =
     (if ''AWSCURRENT'' \<in> set stages
      then (if version = token then Returned else Fell_through (Some version))
      else find_current_version token versions)"

text \<open>
  The client's \<^verbatim>\<open>update_secret_version_stage\<close> with \<^verbatim>\<open>RemoveFromVersionId\<close> given.  The
  client checks the parameters before it sends anything: \<^verbatim>\<open>None\<close> where a string is
  required raises ParamValidationError, and no call reaches the store.
\<close>

definition client_update_secret_version_stage ::
    "world \<Rightarrow> string \<Rightarrow> string \<Rightarrow> string \<Rightarrow> string option \<Rightarrow> unit io" where
  "client_update_secret_version_stage w arn stage move_to remove_from =
     (case remove_from of
        None \<Rightarrow> io_raise ParamValidationError
      | Some version \<Rightarrow>
          io_call (UpdateSecretVersionStage arn stage move_to version)
            (\<lambda>t. update_secret_version_stage w t arn stage move_to version))"

definition finish_secret :: "world \<Rightarrow> string \<Rightarrow> string \<Rightarrow> unit io" where
  "finish_secret w arn token =
     io_bind (io_call (DescribeSecret arn) (\<lambda>t. describe_secret w t arn)) (\<lambda>metadata.
     io_bind (io_lift (case VersionIdsToStages metadata of
                         None \<Rightarrow> Inl (KeyError ''VersionIdsToStages'')
                       | Some v \<Rightarrow> Inr v)) (\<lambda>versions.
     case find_current_version token versions of
       Returned \<Rightarrow> io_return ()
     | Fell_through current_version \<Rightarrow>
         client_update_secret_version_stage w arn ''AWSCURRENT'' token current_version))"

subsection \<open>lambda\_handler\<close>

text \<open>The event of an invocation: \<^verbatim>\<open>SecretId\<close>, \<^verbatim>\<open>ClientRequestToken\<close>, \<^verbatim>\<open>Step\<close>.\<close>

record rotation_event =
  SecretId :: string
  ClientRequestToken :: string
  Step :: string

definition lambda_handler :: "world \<Rightarrow> rotation_event \<Rightarrow> unit io" where
  "lambda_handler w event =
     (let arn = SecretId event; token = ClientRequestToken event; step = Step event in
      io_bind (io_call (DescribeSecret arn) (\<lambda>t. describe_secret w t arn)) (\<lambda>metadata.
      if RotationEnabled metadata = Some False
      then io_raise (ValueError ''Secret %s is not enabled for rotation'')
      else
      io_bind (io_lift (case VersionIdsToStages metadata of
                          None \<Rightarrow> Inl (KeyError ''VersionIdsToStages'')
                        | Some v \<Rightarrow> Inr v)) (\<lambda>versions.
      case map_of versions token of
        None \<Rightarrow> io_raise (ValueError
          ''Secret version %s has no stage for rotation of secret %s.'')
      | Some stages \<Rightarrow>
          if ''AWSCURRENT'' \<in> set stages then io_return ()
          else if ''AWSPENDING'' \<notin> set stages
          then io_raise (ValueError
            ''Secret version %s not set as AWSPENDING for rotation of secret %s.'')
          else if step = ''createSecret'' then create_secret w arn token
          else if step = ''setSecret'' then set_secret w arn token
          else if step = ''testSecret'' then test_secret w arn token
          else if step = ''finishSecret'' then finish_secret w arn token
          else io_raise (ValueError ''Invalid step parameter %s for secret %s''))))"

subsection \<open>The store's answer to a stage move\<close>

text \<open>The versions that hold a stage label.\<close>

definition holders :: "string \<Rightarrow> (string \<times> string list) list \<Rightarrow> string list" where
  "holders stage versions = map fst (filter (\<lambda>(version, stages). stage \<in> set stages) versions)"

text \<open>
  Modelled from the spec: the secret store is outside the repository; this is its
  \<^verbatim>\<open>updateVersionStage(id, stage, moveTo, removeFrom)\<close> of section 6 on the stage map.
  The label is taken from the version \<open>remove_from\<close> and given to the version
  \<open>move_to\<close>, in one step; moving \<^verbatim>\<open>AWSCURRENT\<close> makes the store relabel the displaced
  version \<^verbatim>\<open>AWSPREVIOUS\<close>, which no other version keeps (section 4.6).  The store keeps
  a label on at most one version (section 3): it refuses a move to a version it does not
  have, and a move that would leave the label on a third version, and stays as it is.
\<close>

definition restage ::
    "string \<Rightarrow> string \<Rightarrow> string \<Rightarrow> string \<Rightarrow> string list \<Rightarrow> string list" where
  "restage stage move_to remove_from version stages =
     (let displaced = (version = remove_from \<and> version \<noteq> move_to);
          relabel = (stage = ''AWSCURRENT'' \<and> remove_from \<noteq> move_to)
      in (if version = move_to \<and> stage \<notin> set stages then [stage] else []) @
         (if displaced \<and> relabel then [''AWSPREVIOUS''] else []) @
         filter (\<lambda>l. \<not> (displaced \<and> l = stage) \<and> \<not> (relabel \<and> l = ''AWSPREVIOUS''))
           stages)"

definition move_stage ::
    "string \<Rightarrow> string \<Rightarrow> string \<Rightarrow> (string \<times> string list) list \<Rightarrow> (string \<times> string list) list" where
  "move_stage stage move_to remove_from versions =
     (if move_to \<in> set (map fst versions) \<and>
         set (holders stage versions) \<subseteq> {remove_from, move_to}
      then map (\<lambda>(version, stages). (version, restage stage move_to remove_from version stages))
             versions
      else versions)"

text \<open>
  The stage map after the store has taken the stage moves of a trace, in their order.
  The other calls of \<open>finish_secret\<close> leave the stage map as it is.
\<close>

fun after_stage_moves :: "trace \<Rightarrow> (string \<times> string list) list \<Rightarrow> (string \<times> string list) list" where
  "after_stage_moves [] versions = versions"
| "after_stage_moves (UpdateSecretVersionStage arn stage move_to remove_from # es) versions =
     after_stage_moves es (move_stage stage move_to remove_from versions)"
| "after_stage_moves (_ # es) versions = after_stage_moves es versions"

text \<open>The calls of a trace that change the secret store.\<close>

fun is_store_write :: "event \<Rightarrow> bool" where
  "is_store_write (PutSecretValue _ _ _ _) = True"
| "is_store_write (UpdateSecretVersionStage _ _ _ _) = True"
| "is_store_write _ = False"

text \<open>The calls of a trace that reach the database.\<close>

fun is_db_call :: "event \<Rightarrow> bool" where
  "is_db_call (Connect _) = True"
| "is_db_call (Execute _ _ _) = True"
| "is_db_call (Commit _) = True"
| "is_db_call (Close _) = True"
| "is_db_call _ = False"

fun is_db_statement :: "event \<Rightarrow> bool" where
  "is_db_statement (Execute _ _ _) = True"
| "is_db_statement (Commit _) = True"
| "is_db_statement _ = False"

subsection \<open>Example worlds\<close>

text \<open>
  A world in which nothing exists: no secret, no database, no instance.  The worlds of
  the examples below change the answers they need.
\<close>

definition silent_world :: world where
  "silent_world = \<lparr>
     describe_secret = (\<lambda>tr arn. Inl ResourceNotFoundException),
     get_secret_value = (\<lambda>tr arn version_id stage. Inl ResourceNotFoundException),
     random_password = (\<lambda>tr request. Inr ''Zk4r8wq2''),
     put_secret_value = (\<lambda>tr arn token d stages. Inr ()),
     update_secret_version_stage = (\<lambda>tr arn stage move_to remove_from. Inr ()),
     describe_db_instances = (\<lambda>tr instance_id. Inr []),
     describe_db_clusters = (\<lambda>tr cluster_id. Inr []),
     psycopg2_connect = (\<lambda>tr args. False),
     execute = (\<lambda>tr conn sql params. Inr []),
     commit = (\<lambda>tr conn. Inr ()),
     json_loads = (\<lambda>plaintext. None),
     int_of_str = (\<lambda>s. None),
     str_of_int = (\<lambda>n. ''0''),
     environ = Map.empty\<rparr>"

text \<open>A secret whose metadata is \<open>md\<close>, whatever the identifier asked for.\<close>

definition world_with_metadata :: "secret_metadata \<Rightarrow> world" where
  "world_with_metadata md = silent_world\<lparr>describe_secret := (\<lambda>tr arn. Inr md)\<rparr>"

definition staged :: "bool option \<Rightarrow> (string \<times> string list) list \<Rightarrow> secret_metadata" where
  "staged enabled versions =
     \<lparr>RotationEnabled = enabled, VersionIdsToStages = Some versions, Tags = None\<rparr>"

definition rotation_request :: "string \<Rightarrow> string \<Rightarrow> rotation_event" where
  "rotation_request token step = \<lparr>SecretId = ''arn'', ClientRequestToken = token, Step = step\<rparr>"

definition one_current :: "(string \<times> string list) list" where
  "one_current = [(''v1'', [''AWSCURRENT'']), (''v2'', [''AWSPENDING''])]"

definition no_current :: "(string \<times> string list) list" where
  "no_current = [(''v1'', [''AWSPREVIOUS'']), (''v2'', [''AWSPENDING''])]"

text \<open>
  A candidate and a master on the single-instance engine; in \<open>silent_world\<close> the control
  plane knows no instance (an empty \<^verbatim>\<open>DBInstances\<close>), in \<open>instance_not_found_world\<close>
  it answers the lookup with an error.
\<close>

definition replica_payload :: secret_dict where
  "replica_payload = [''host'' \<mapsto> JStr ''replica1.abc.rds.amazonaws.com'',
     ''engine'' \<mapsto> JStr ''postgres'']"

definition master_payload :: secret_dict where
  "master_payload = [''host'' \<mapsto> JStr ''master1.abc.rds.amazonaws.com'',
     ''engine'' \<mapsto> JStr ''postgres'']"

definition instance_not_found_world :: world where
  "instance_not_found_world = silent_world\<lparr>describe_db_instances :=
     (\<lambda>tr instance_id. Inl (ClientError ''DBInstanceNotFound''))\<rparr>"

text \<open>The \<^verbatim>\<open>sslmode\<close> of each connection attempt of a trace, in order.\<close>

fun sslmodes :: "trace \<Rightarrow> string list" where
  "sslmodes [] = []"
| "sslmodes (Connect args # es) = ca_sslmode args # sslmodes es"
| "sslmodes (_ # es) = sslmodes es"

text \<open>A payload with no \<^verbatim>\<open>ssl\<close> member, and a database that refuses every login.\<close>

definition app_payload :: secret_dict where
  "app_payload = [''engine'' \<mapsto> JStr ''postgres'', ''host'' \<mapsto> JStr ''db1.abc.rds.amazonaws.com'',
     ''username'' \<mapsto> JStr ''app'', ''password'' \<mapsto> JStr ''old'',
     ''masterarn'' \<mapsto> JStr ''master-arn'']"

text \<open>
  A world with the secret \<^verbatim>\<open>arn\<close>: its current version holds \<open>app_payload\<close>, its
  version \<^verbatim>\<open>v2\<close> is staged \<^verbatim>\<open>AWSPENDING\<close> and holds \<open>pending\<close>; the secret
  \<^verbatim>\<open>master-arn\<close> holds \<open>master\<close>.  The database accepts every login.
\<close>

definition rotation_world :: "secret_dict \<Rightarrow> secret_dict \<Rightarrow> world" where
  "rotation_world pending master = silent_world\<lparr>
     get_secret_value := (\<lambda>tr arn version_id stage.
       if arn = ''arn'' \<and> stage = ''AWSCURRENT'' \<and> version_id = None
         then Inr (Some ''current'')
       else if arn = ''arn'' \<and> stage = ''AWSPENDING'' \<and> version_id = Some ''v2''
         then Inr (Some ''pending'')
       else if arn = ''master-arn'' \<and> stage = ''AWSCURRENT'' \<and> version_id = None
         then Inr (Some ''master'')
       else Inl ResourceNotFoundException),
     psycopg2_connect := (\<lambda>tr args. True),
     json_loads := (\<lambda>plaintext.
       if plaintext = ''current'' then Some app_payload
       else if plaintext = ''pending'' then Some pending
       else if plaintext = ''master'' then Some master
       else None)\<rparr>"

definition clone_payload :: secret_dict where
  "clone_payload = app_payload(''username'' \<mapsto> JStr ''app_clone'', ''password'' \<mapsto> JStr ''new'')"

definition admin_payload :: secret_dict where
  "admin_payload = [''engine'' \<mapsto> JStr ''postgres'', ''host'' \<mapsto> JStr ''db1.abc.rds.amazonaws.com'',
     ''username'' \<mapsto> JStr ''admin'', ''password'' \<mapsto> JStr ''secret'']"

text \<open>
  A master secret managed by RDS holds the user name and the password only.  In
  \<open>linked_world tags\<close> the secrets carry the tags \<open>tags\<close>, and the control plane knows
  the instance \<open>db1\<close> by its ARN.
\<close>

definition managed_master :: secret_dict where
  "managed_master = [''username'' \<mapsto> JStr ''admin'', ''password'' \<mapsto> JStr ''secret'']"

definition db1_arn :: string where
  "db1_arn = ''arn:aws:rds:us-east-1:123456789012:db:db1''"

definition db1 :: db_instance where
  "db1 = \<lparr>i_Endpoint = Some (''db1.abc.rds.amazonaws.com'', 5432), i_Engine = Some ''postgres'',
     i_ReadReplicaSourceDBInstanceIdentifier = None, i_DBClusterIdentifier = None,
     i_other_keys = [''DBInstanceIdentifier'']\<rparr>"

definition linked_world :: "(string \<times> string) list option \<Rightarrow> world" where
  "linked_world tags = (rotation_world clone_payload managed_master)\<lparr>
     describe_secret := (\<lambda>tr arn. Inr \<lparr>RotationEnabled = Some True,
       VersionIdsToStages = Some one_current, Tags = tags\<rparr>),
     describe_db_instances := (\<lambda>tr instance_id.
       if instance_id = db1_arn then Inr [db1] else Inr [])\<rparr>"

text \<open>A computation that makes no call to the database, whatever the trace before.\<close>

definition no_db_calls :: "'a io \<Rightarrow> bool" where
  "no_db_calls m \<longleftrightarrow> (\<forall>tr. filter is_db_call (snd (m tr)) = filter is_db_call tr)"

text \<open>
  The first connection \<open>get_connection\<close> opens with \<open>app_payload\<close>, and a pending payload
  for another user than the clone of \<^verbatim>\<open>app\<close>.
\<close>

definition app_conn :: connection where
  "app_conn = \<lparr>ca_host = JStr ''db1.abc.rds.amazonaws.com'', ca_port = 5432,
     ca_dbname = JStr ''postgres'', ca_user = JStr ''app'', ca_password = JStr ''old'',
     ca_sslmode = ''require''\<rparr>"

definition intruder_payload :: secret_dict where
  "intruder_payload = app_payload(''username'' \<mapsto> JStr ''intruder'', ''password'' \<mapsto> JStr ''new'')"

text \<open>
  A master on another host than the current credential's, and a control plane that
  knows the instance \<open>db1\<close> as a read replica of \<open>source\<close>.
\<close>

definition remote_admin :: secret_dict where
  "remote_admin = admin_payload(''host'' \<mapsto> JStr ''master1.abc.rds.amazonaws.com'')"

definition replica_world :: "string option \<Rightarrow> world" where
  "replica_world source = (rotation_world clone_payload remote_admin)\<lparr>
     describe_db_instances := (\<lambda>tr instance_id.
       if instance_id = ''db1''
       then Inr [db1\<lparr>i_ReadReplicaSourceDBInstanceIdentifier := source\<rparr>]
       else Inr [])\<rparr>"

text \<open>The trace of \<open>set_secret\<close> in these worlds up to the master secret.\<close>

definition checked_trace :: trace where
  "checked_trace =
     [GetSecretValue ''arn'' None ''AWSCURRENT'',
      GetSecretValue ''arn'' (Some ''v2'') ''AWSPENDING'',
      Connect app_conn, Close app_conn, Connect app_conn, Close app_conn,
      GetSecretValue ''master-arn'' None ''AWSCURRENT'']"

text \<open>
  A current user name of 58 characters, which has no alternate (with \<^verbatim>\<open>_clone\<close> it
  would have 64), and a pending payload on another host.
\<close>

definition long_name :: string where
  "long_name = ''aaaaaaaaaaaaaaaaaaaaaaaaaaaaaaaaaaaaaaaaaaaaaaaaaaaaaaaaaa''"

definition long_payload :: secret_dict where
  "long_payload = app_payload(''username'' \<mapsto> JStr long_name)"

definition moved_payload :: secret_dict where
  "moved_payload = app_payload(''host'' \<mapsto> JStr ''db2.abc.rds.amazonaws.com'',
     ''username'' \<mapsto> JStr ''app_clone'', ''password'' \<mapsto> JStr ''new'')"

definition long_conn :: connection where
  "long_conn = app_conn\<lparr>ca_user := JStr long_name\<rparr>"

definition long_name_world :: world where
  "long_name_world = (rotation_world moved_payload admin_payload)\<lparr>
     json_loads := (\<lambda>plaintext.
       if plaintext = ''current'' then Some long_payload
       else if plaintext = ''pending'' then Some moved_payload
       else None)\<rparr>"

text \<open>A computation that only adds events to the trace.\<close>

definition io_grows :: "'a io \<Rightarrow> bool" where
  "io_grows m \<longleftrightarrow> (\<forall>tr. \<exists>evs. snd (m tr) = tr @ evs)"

text \<open>
  An outcome of a run that, from the trace \<open>t\<close>, goes on to the login with the payload
  \<open>d\<close>: the port is converted first (line 318), and when that raises, the run ends with
  this exception and no further call; otherwise the next call is a connection attempt
  with the host, the user name and the password of \<open>d\<close>, at that port.
\<close>

definition logs_in_with :: "world \<Rightarrow> secret_dict \<Rightarrow> trace \<Rightarrow> (error + unit) \<times> trace \<Rightarrow> bool" where
  "logs_in_with w d t outcome \<longleftrightarrow>
     (case (case d ''port'' of None \<Rightarrow> Inr 5432 | Some p \<Rightarrow> py_int w p) of
        Inl e \<Rightarrow> outcome = (Inl e, t)
      | Inr port \<Rightarrow>
          (\<exists>args rest. snd outcome = t @ Connect args # rest \<and> ca_port args = port \<and>
             d ''host'' = Some (ca_host args) \<and> d ''username'' = Some (ca_user args) \<and>
             d ''password'' = Some (ca_password args)))"

text \<open>The first connection \<open>get_connection\<close> opens with \<open>admin_payload\<close>.\<close>

definition admin_conn :: connection where
  "admin_conn = \<lparr>ca_host = JStr ''db1.abc.rds.amazonaws.com'', ca_port = 5432,
     ca_dbname = JStr ''postgres'', ca_user = JStr ''admin'', ca_password = JStr ''secret'',
     ca_sslmode = ''require''\<rparr>"

section \<open>Properties\<close>

subsection \<open>Helper facts on strings\<close>

lemma endswith_iff: "endswith s suf \<longleftrightarrow> (\<exists>p. s = p @ suf)"
proof
  assume "endswith s suf"
  then have "s = take (length s - length suf) s @ suf"
    unfolding endswith_def by (metis append_take_drop_id)
  then show "\<exists>p. s = p @ suf" ..
next
  assume "\<exists>p. s = p @ suf"
  then show "endswith s suf" by (auto simp: endswith_def)
qed

lemma get_alt_username_strip:
  "get_alt_username (p @ clone_suffix) = Inr p"
  by (simp add: get_alt_username_def endswith_iff)

lemma get_alt_username_append:
  assumes "\<not> endswith n clone_suffix" and "get_alt_username n = Inr m"
  shows "m = n @ clone_suffix"
  using assms by (auto simp: get_alt_username_def Let_def split: if_splits)

subsection \<open>C4: the alternate username\<close>

text \<open>
  C4 (as amended).  Let both applications of \<open>get_alt_username\<close> succeed on \<open>n\<close>.  Then
  applying it twice gives \<open>n\<close> back exactly when \<open>n\<close> does not end with the clone suffix
  twice over (\<^verbatim>\<open>_clone_clone\<close>).  So the function is an involution on every valid name
  that does not end with \<^verbatim>\<open>_clone_clone\<close>, and on no valid name that does.
\<close>

theorem get_alt_username_twice:
  assumes "get_alt_username n = Inr m" and "get_alt_username m = Inr k"
  shows "(k = n) = (\<not> endswith n (clone_suffix @ clone_suffix))"
proof (cases "endswith n clone_suffix")
  case True
  then obtain p where n: "n = p @ clone_suffix"
    by (auto simp: endswith_iff)
  with assms(1) have m: "m = p"
    by (simp add: get_alt_username_strip)
  show ?thesis
  proof (cases "endswith p clone_suffix")
    case True
    then obtain q where p: "p = q @ clone_suffix"
      by (auto simp: endswith_iff)
    with assms(2) m have "k = q"
      by (simp add: get_alt_username_strip)
    moreover have "endswith n (clone_suffix @ clone_suffix)"
      unfolding endswith_iff using n p by simp
    moreover have "q \<noteq> n"
      using n p by (simp add: clone_suffix_def)
    ultimately show ?thesis by simp
  next
    case False
    with assms(2) m have "k = p @ clone_suffix"
      by (simp add: get_alt_username_append)
    moreover have "\<not> endswith n (clone_suffix @ clone_suffix)"
    proof
      assume "endswith n (clone_suffix @ clone_suffix)"
      then obtain r where "n = r @ clone_suffix @ clone_suffix"
        by (auto simp: endswith_iff)
      with n have "p = r @ clone_suffix" by simp
      with False show False by (simp add: endswith_iff)
    qed
    ultimately show ?thesis using n by simp
  qed
next
  case False
  with assms(1) have m: "m = n @ clone_suffix"
    by (simp add: get_alt_username_append)
  with assms(2) have "k = n"
    by (simp add: get_alt_username_strip)
  moreover have "\<not> endswith n (clone_suffix @ clone_suffix)"
  proof
    assume "endswith n (clone_suffix @ clone_suffix)"
    then obtain r where "n = (r @ clone_suffix) @ clone_suffix"
      by (auto simp: endswith_iff)
    then have "endswith n clone_suffix"
      unfolding endswith_iff by blast
    with False show False by simp
  qed
  ultimately show ?thesis by simp
qed

theorem get_alt_username_twice_witness:
  "get_alt_username ''app'' = Inr ''app_clone'' \<and>
   get_alt_username ''app_clone'' = Inr ''app'' \<and>
   \<not> endswith ''app'' (clone_suffix @ clone_suffix)"
proof -
  have a: "get_alt_username ''app'' = Inr ''app_clone''"
    by (simp add: get_alt_username_def endswith_def clone_suffix_def)
  have b: "get_alt_username ''app_clone'' = Inr ''app''"
    by (simp add: get_alt_username_def endswith_def clone_suffix_def)
  from get_alt_username_twice [OF a b] a b show ?thesis by simp
qed

text \<open>
  The claim as stated fails: both applications succeed on \<^verbatim>\<open>a_clone_clone\<close>, and the
  second one gives \<^verbatim>\<open>a\<close>.
\<close>

theorem get_alt_username_not_involutive:
  "get_alt_username ''a_clone_clone'' = Inr ''a_clone'' \<and>
   get_alt_username ''a_clone'' = Inr ''a'' \<and>
   ''a'' \<noteq> ''a_clone_clone''"
  by (simp add: get_alt_username_def endswith_def clone_suffix_def)

subsection \<open>C5: the SSL policy\<close>

text \<open>
  C5.  \<open>get_ssl_config\<close> gives (require, fall back) = (True, True) when the payload has
  no \<^verbatim>\<open>ssl\<close> key; (v, False) when the value is the boolean v; (True, False) when it is
  a string equal to \<^verbatim>\<open>true\<close> ignoring case; (False, False) when it is a string equal
  to \<^verbatim>\<open>false\<close> ignoring case; (True, True) for every other string.
\<close>

theorem get_ssl_config_policy:
  "(secret_dict ''ssl'' = None \<longrightarrow> get_ssl_config secret_dict = (True, True)) \<and>
   (secret_dict ''ssl'' = Some (JBool v) \<longrightarrow> get_ssl_config secret_dict = (v, False)) \<and>
   (secret_dict ''ssl'' = Some (JStr s) \<and> equals_ignoring_case s ''true'' \<longrightarrow>
      get_ssl_config secret_dict = (True, False)) \<and>
   (secret_dict ''ssl'' = Some (JStr s) \<and> equals_ignoring_case s ''false'' \<longrightarrow>
      get_ssl_config secret_dict = (False, False)) \<and>
   (secret_dict ''ssl'' = Some (JStr s) \<and> \<not> equals_ignoring_case s ''true'' \<and>
      \<not> equals_ignoring_case s ''false'' \<longrightarrow>
      get_ssl_config secret_dict = (True, True))"
proof -
  have l: "lower ''true'' = ''true''" "lower ''false'' = ''false''"
    by (simp_all add: lower_def lower_char_def)
  show ?thesis
    by (simp add: get_ssl_config_def equals_ignoring_case_def l Let_def)
qed

theorem get_ssl_config_policy_witness:
  "get_ssl_config Map.empty = (True, True) \<and>
   get_ssl_config [''ssl'' \<mapsto> JBool False] = (False, False) \<and>
   equals_ignoring_case ''TRUE'' ''true'' \<and>
   get_ssl_config [''ssl'' \<mapsto> JStr ''TRUE''] = (True, False) \<and>
   equals_ignoring_case ''False'' ''false'' \<and>
   get_ssl_config [''ssl'' \<mapsto> JStr ''False''] = (False, False) \<and>
   \<not> equals_ignoring_case ''bogus'' ''true'' \<and>
   \<not> equals_ignoring_case ''bogus'' ''false'' \<and>
   get_ssl_config [''ssl'' \<mapsto> JStr ''bogus''] = (True, True)"
proof -
  have e: "equals_ignoring_case ''TRUE'' ''true''" "equals_ignoring_case ''False'' ''false''"
    "\<not> equals_ignoring_case ''bogus'' ''true''" "\<not> equals_ignoring_case ''bogus'' ''false''"
    by (simp_all add: equals_ignoring_case_def lower_def lower_char_def)
  show ?thesis
    using e
      get_ssl_config_policy [where secret_dict = Map.empty]
      get_ssl_config_policy [where secret_dict = "[''ssl'' \<mapsto> JBool False]" and v = False]
      get_ssl_config_policy [where secret_dict = "[''ssl'' \<mapsto> JStr ''TRUE'']" and s = "''TRUE''"]
      get_ssl_config_policy [where secret_dict = "[''ssl'' \<mapsto> JStr ''False'']" and s = "''False''"]
      get_ssl_config_policy [where secret_dict = "[''ssl'' \<mapsto> JStr ''bogus'']" and s = "''bogus''"]
    by simp
qed

subsection \<open>Helper facts on computations\<close>

lemma io_bind_Inr: "m tr = (Inr x, tr') \<Longrightarrow> io_bind m f tr = f x tr'"
  by (simp add: io_bind_def)

lemma io_bind_Inl: "m tr = (Inl e, tr') \<Longrightarrow> io_bind m f tr = (Inl e, tr')"
  by (simp add: io_bind_def)

lemma io_simps:
  "io_return x tr = (Inr x, tr)"
  "io_raise e tr = (Inl e, tr)"
  "io_lift r tr = (r, tr)"
  "io_call ev answer tr = (answer tr, tr @ [ev])"
  by (simp_all add: io_return_def io_raise_def io_lift_def io_call_def)

lemmas world_simps = silent_world_def world_with_metadata_def staged_def

subsection \<open>C1: finish\_secret and the stage move\<close>

lemma holders_mem:
  "v \<in> set (holders s vs) \<longleftrightarrow> (\<exists>st. (v, st) \<in> set vs \<and> s \<in> set st)"
  by (force simp: holders_def)

lemma filter_key_distinct:
  "distinct (map fst vs) \<Longrightarrow> k \<in> set (map fst vs) \<Longrightarrow>
   map fst (filter (\<lambda>(v, st). v = k) vs) = [k]"
proof (induction vs)
  case Nil
  then show ?case by simp
next
  case (Cons x vs)
  show ?case
  proof (cases "fst x = k")
    case True
    with Cons.prems have "k \<notin> set (map fst vs)" by auto
    then have "filter (\<lambda>(v, st). v = k) vs = []"
      by (force simp: filter_empty_conv)
    with True show ?thesis by (cases x) simp
  next
    case False
    with Cons show ?thesis by (cases x) auto
  qed
qed

lemma current_in_restage:
  "''AWSCURRENT'' \<in> set (restage ''AWSCURRENT'' token h v st) \<longleftrightarrow>
     v = token \<or> (''AWSCURRENT'' \<in> set st \<and> v \<noteq> h)"
  by (auto simp: restage_def Let_def)

text \<open>The loop of \<open>finish_secret\<close> looks at the first holder of \<^verbatim>\<open>AWSCURRENT\<close> only.\<close>

lemma find_current_version_holders:
  "find_current_version token versions =
     (case holders ''AWSCURRENT'' versions of
        [] \<Rightarrow> Fell_through None
      | h # _ \<Rightarrow> if h = token then Returned else Fell_through (Some h))"
  by (induction versions) (auto simp: holders_def)

lemma holders_move:
  assumes d: "distinct (map fst versions)"
    and h: "holders ''AWSCURRENT'' versions = [h]"
  shows "holders ''AWSCURRENT'' (move_stage ''AWSCURRENT'' token h versions) =
           [if token \<in> set (map fst versions) then token else h]"
proof (cases "token \<in> set (map fst versions)")
  case False
  with h show ?thesis by (simp add: move_stage_def)
next
  case True
  have only: "v = h" if "(v, st) \<in> set versions" "''AWSCURRENT'' \<in> set st" for v st
  proof -
    from that have "v \<in> set (holders ''AWSCURRENT'' versions)"
      unfolding holders_mem by blast
    with h show ?thesis by simp
  qed
  have "filter (\<lambda>(v, st). ''AWSCURRENT'' \<in> set (restage ''AWSCURRENT'' token h v st)) versions =
        filter (\<lambda>(v, st). v = token) versions"
    by (rule filter_cong) (auto simp: current_in_restage dest: only)
  then have "holders ''AWSCURRENT''
        (map (\<lambda>(version, stages). (version, restage ''AWSCURRENT'' token h version stages))
           versions) =
        map fst (filter (\<lambda>(v, st). v = token) versions)"
    by (simp add: holders_def filter_map comp_def case_prod_unfold)
  with filter_key_distinct [OF d True] True h show ?thesis
    by (simp add: move_stage_def)
qed

text \<open>
  C1 (as amended).  Let the stage map that \<^verbatim>\<open>describe_secret\<close> returns have exactly one
  version \<open>h\<close> staged \<^verbatim>\<open>AWSCURRENT\<close>.  When the token is that version, \<open>finish_secret\<close>
  returns after the describe call and makes no call that changes the store.  Otherwise
  it makes exactly one more call, the combined move of \<^verbatim>\<open>AWSCURRENT\<close> to the token and
  away from \<open>h\<close>, and returns what the store answers.  Either way, once the store has
  taken the calls that \<open>finish_secret\<close> made, exactly one version holds \<^verbatim>\<open>AWSCURRENT\<close>:
  the token, when the store has that version.
\<close>

theorem finish_secret_single_move:
  assumes "describe_secret w tr arn = Inr metadata"
    and "VersionIdsToStages metadata = Some versions"
    and "distinct (map fst versions)"
    and "holders ''AWSCURRENT'' versions = [h]"
  shows "(h = token \<longrightarrow>
           finish_secret w arn token tr = (Inr (), tr @ [DescribeSecret arn])) \<and>
         (h \<noteq> token \<longrightarrow>
           finish_secret w arn token tr =
             (update_secret_version_stage w (tr @ [DescribeSecret arn]) arn ''AWSCURRENT''
                token h,
              tr @ [DescribeSecret arn,
                    UpdateSecretVersionStage arn ''AWSCURRENT'' token h])) \<and>
         holders ''AWSCURRENT''
           (after_stage_moves (drop (length tr) (snd (finish_secret w arn token tr))) versions) =
           [if token \<in> set (map fst versions) then token else h]"
proof -
  have run: "finish_secret w arn token tr =
      (case find_current_version token versions of
         Returned \<Rightarrow> io_return ()
       | Fell_through current_version \<Rightarrow>
           client_update_secret_version_stage w arn ''AWSCURRENT'' token current_version)
        (tr @ [DescribeSecret arn])"
    using assms(1,2) by (simp add: finish_secret_def io_bind_def io_simps)
  have h_in: "h \<in> set (map fst versions)"
  proof -
    from assms(4) have "h \<in> set (holders ''AWSCURRENT'' versions)" by simp
    then show ?thesis by (auto simp: holders_def)
  qed
  show ?thesis
  proof (cases "h = token")
    case True
    with assms(4) have "finish_secret w arn token tr = (Inr (), tr @ [DescribeSecret arn])"
      unfolding run by (simp add: find_current_version_holders io_simps)
    with True assms(4) h_in show ?thesis by simp
  next
    case False
    with assms(4) have "finish_secret w arn token tr =
        (update_secret_version_stage w (tr @ [DescribeSecret arn]) arn ''AWSCURRENT'' token h,
         tr @ [DescribeSecret arn, UpdateSecretVersionStage arn ''AWSCURRENT'' token h])"
      unfolding run
      by (simp add: find_current_version_holders client_update_secret_version_stage_def io_simps)
    with False holders_move [OF assms(3,4), of token] show ?thesis by simp
  qed
qed

theorem finish_secret_single_move_witness:
  "holders ''AWSCURRENT'' one_current = [''v1''] \<and>
   finish_secret (world_with_metadata (staged None one_current)) ''arn'' ''v1'' [] =
     (Inr (), [DescribeSecret ''arn'']) \<and>
   finish_secret (world_with_metadata (staged None one_current)) ''arn'' ''v2'' [] =
     (Inr (), [DescribeSecret ''arn'',
               UpdateSecretVersionStage ''arn'' ''AWSCURRENT'' ''v2'' ''v1'']) \<and>
   holders ''AWSCURRENT''
     (after_stage_moves
        (snd (finish_secret (world_with_metadata (staged None one_current)) ''arn'' ''v2'' []))
        one_current) = [''v2'']"
proof -
  let ?w = "world_with_metadata (staged None one_current)"
  have a: "describe_secret ?w [] ''arn'' = Inr (staged None one_current)"
    by (simp add: world_simps)
  have b: "VersionIdsToStages (staged None one_current) = Some one_current"
    by (simp add: staged_def)
  have c: "distinct (map fst one_current)"
    by (simp add: one_current_def)
  have d: "holders ''AWSCURRENT'' one_current = [''v1'']"
    by (simp add: holders_def one_current_def)
  have e: "''v2'' \<in> set (map fst one_current)"
    by (simp add: one_current_def)
  have f: "update_secret_version_stage ?w t a s m r = Inr ()" for t a s m r
    by (simp add: world_simps)
  note same = finish_secret_single_move [OF a b c d, of "''v1''"]
  note other = finish_secret_single_move [OF a b c d, of "''v2''"]
  from same have r1: "finish_secret ?w ''arn'' ''v1'' [] = (Inr (), [DescribeSecret ''arn''])"
    by simp
  from other have r2: "finish_secret ?w ''arn'' ''v2'' [] =
      (Inr (), [DescribeSecret ''arn'',
                UpdateSecretVersionStage ''arn'' ''AWSCURRENT'' ''v2'' ''v1''])"
    by (simp add: f)
  from other [THEN conjunct2, THEN conjunct2] e
  have p2: "holders ''AWSCURRENT''
      (after_stage_moves (snd (finish_secret ?w ''arn'' ''v2'' [])) one_current) = [''v2'']"
    by simp
  from d r1 r2 p2 show ?thesis by (intro conjI)
qed

text \<open>
  The claim as stated, for every stage map, fails on a stage map in which no version
  is staged \<^verbatim>\<open>AWSCURRENT\<close>: the token does not hold the stage, \<open>current_version\<close> stays
  \<^verbatim>\<open>None\<close>, the client refuses the call, so no stage move is made, and no version
  holds \<^verbatim>\<open>AWSCURRENT\<close> afterwards.
\<close>

theorem finish_secret_without_current_version:
  "holders ''AWSCURRENT'' no_current = [] \<and>
   finish_secret (world_with_metadata (staged None no_current)) ''arn'' ''v2'' [] =
     (Inl ParamValidationError, [DescribeSecret ''arn'']) \<and>
   holders ''AWSCURRENT'' (after_stage_moves [DescribeSecret ''arn''] no_current) = []"
  by (simp add: finish_secret_def client_update_secret_version_stage_def no_current_def
      holders_def world_simps io_bind_def io_simps)

subsection \<open>C2: a token that is already current\<close>

text \<open>
  C2 (as amended).  For every step value, a recognised one or not: when the describe
  call succeeds, the metadata does not mark rotation as disabled, and the stage set of
  the requested token includes \<^verbatim>\<open>AWSCURRENT\<close>, \<open>lambda_handler\<close> returns without raising
  and has made the describe call only, so no step has run.
\<close>

theorem lambda_handler_already_current:
  assumes "describe_secret w tr (SecretId event) = Inr metadata"
    and "RotationEnabled metadata \<noteq> Some False"
    and "VersionIdsToStages metadata = Some versions"
    and "map_of versions (ClientRequestToken event) = Some stages"
    and "''AWSCURRENT'' \<in> set stages"
  shows "lambda_handler w event tr = (Inr (), tr @ [DescribeSecret (SecretId event)])"
  using assms by (simp add: lambda_handler_def Let_def io_bind_def io_simps)

theorem lambda_handler_already_current_witness:
  "lambda_handler (world_with_metadata (staged (Some True) one_current))
     (rotation_request ''v1'' ''noSuchStep'') [] = (Inr (), [DescribeSecret ''arn''])"
proof -
  let ?w = "world_with_metadata (staged (Some True) one_current)"
  let ?e = "rotation_request ''v1'' ''noSuchStep''"
  have a: "describe_secret ?w [] (SecretId ?e) = Inr (staged (Some True) one_current)"
    by (simp add: world_simps)
  have b: "RotationEnabled (staged (Some True) one_current) \<noteq> Some False"
    by (simp add: staged_def)
  have c: "VersionIdsToStages (staged (Some True) one_current) = Some one_current"
    by (simp add: staged_def)
  have d: "map_of one_current (ClientRequestToken ?e) = Some [''AWSCURRENT'']"
    by (simp add: one_current_def rotation_request_def)
  have e: "''AWSCURRENT'' \<in> set [''AWSCURRENT'']" by simp
  from lambda_handler_already_current [OF a b c d e] show ?thesis
    by (simp add: rotation_request_def)
qed

text \<open>
  The claim as stated fails: the check of \<^verbatim>\<open>RotationEnabled\<close> comes first, so a
  token staged \<^verbatim>\<open>AWSCURRENT\<close> on a secret with rotation disabled makes the handler
  raise.
\<close>

theorem lambda_handler_raises_when_disabled:
  "map_of one_current ''v1'' = Some [''AWSCURRENT''] \<and>
   lambda_handler (world_with_metadata (staged (Some False) one_current))
     (rotation_request ''v1'' ''finishSecret'') [] =
     (Inl (ValueError ''Secret %s is not enabled for rotation''), [DescribeSecret ''arn''])"
  by (simp add: lambda_handler_def Let_def rotation_request_def one_current_def world_simps
      io_bind_def io_simps)

subsection \<open>C3: a candidate instance that does not exist\<close>

text \<open>
  C3.  The claim is that \<open>is_rds_replica_database\<close> returns false, and does not raise,
  when no topology can be resolved, as when the candidate instance does not exist.
  The code raises there: \<open>get_instance_info_from_rds_api\<close> raises ValueError on an empty
  list of instances and \<^verbatim>\<open>Exception\<close> on an error of the API, and nothing catches
  either, so the test \<^verbatim>\<open>if not current_instance: return False\<close> is never reached with
  a missing instance.
\<close>

theorem is_rds_replica_database_raises:
  "is_rds_replica_database silent_world replica_payload master_payload [] =
     (Inl (ValueError
        ''%s is not a valid DB Instance ARN. No Instances found when using DescribeDBInstances RDS API to get connection params.''),
      [DescribeDBInstances ''replica1'']) \<and>
   is_rds_replica_database instance_not_found_world replica_payload master_payload [] =
     (Inl (GenericException
        ''Encountered API error while fetching connection parameters from DescribeDBInstances RDS API: %s''),
      [DescribeDBInstances ''replica1''])"
  by (simp add: is_rds_replica_database_def get_instance_info_from_rds_api_def
      replica_payload_def master_payload_def instance_not_found_world_def silent_world_def
      io_bind_def io_simps sum_bind_def get_item_def as_str_def Let_def)

subsection \<open>C10: the sslmode of every connection attempt\<close>

lemma connect_and_authenticate_result:
  "connect_and_authenticate w d port dbname use_ssl tr = (Inr None, tr) \<or>
   (\<exists>args. connect_and_authenticate w d port dbname use_ssl tr =
        (Inr (if psycopg2_connect w tr args then Some args else None), tr @ [Connect args]) \<and>
      ca_sslmode args = (if use_ssl then ''require'' else ''prefer''))"
proof (cases "d ''host''")
  case None
  then show ?thesis by (simp add: connect_and_authenticate_def io_simps)
next
  case host: (Some host)
  show ?thesis
  proof (cases "d ''username''")
    case None
    with host show ?thesis by (simp add: connect_and_authenticate_def io_simps)
  next
    case user: (Some username)
    show ?thesis
    proof (cases "d ''password''")
      case None
      with host user show ?thesis by (simp add: connect_and_authenticate_def io_simps)
    next
      case (Some password)
      with host user show ?thesis
        by (simp add: connect_and_authenticate_def Let_def)
    qed
  qed
qed

lemma connect_and_authenticate_cases:
  obtains (none) "connect_and_authenticate w d port dbname use_ssl tr = (Inr None, tr)"
  | (attempt) args r where
      "connect_and_authenticate w d port dbname use_ssl tr = (Inr r, tr @ [Connect args])"
      "ca_sslmode args = (if use_ssl then ''require'' else ''prefer'')"
      "r = (if psycopg2_connect w tr args then Some args else None)"
  using connect_and_authenticate_result [of w d port dbname use_ssl tr] by blast

text \<open>Whether the driver is called does not depend on the SSL flag.\<close>

lemma connect_and_authenticate_none:
  "connect_and_authenticate w d port dbname use_ssl tr = (Inr None, tr) \<Longrightarrow>
   connect_and_authenticate w d port dbname use_ssl' tr' = (Inr None, tr')"
  by (auto simp: connect_and_authenticate_def io_simps Let_def split: option.splits)

text \<open>
  C10.  An attempt of \<open>connect_and_authenticate\<close> passes \<^verbatim>\<open>sslmode\<close> \<^verbatim>\<open>require\<close> when
  \<open>use_ssl\<close> is true and \<^verbatim>\<open>prefer\<close> when it is false.  \<open>get_connection\<close> makes no attempt,
  or one with the mode of the resolved policy, or, when fall back is allowed, a second
  one with \<^verbatim>\<open>prefer\<close>; no attempt passes \<^verbatim>\<open>disable\<close>.
\<close>

theorem connection_sslmodes:
  "(let modes = sslmodes (drop (length tr)
        (snd (connect_and_authenticate w secret_dict port dbname use_ssl tr)))
    in modes = [] \<or> modes = [if use_ssl then ''require'' else ''prefer'']) \<and>
   (let first = (if fst (get_ssl_config secret_dict) then ''require'' else ''prefer'');
        fall_back = snd (get_ssl_config secret_dict);
        modes = sslmodes (drop (length tr) (snd (get_connection w secret_dict tr)))
    in (modes = [] \<or> modes = [first] \<or> (fall_back \<and> modes = [first, ''prefer''])) \<and>
       ''disable'' \<notin> set modes)"
proof -
  have one: "sslmodes (drop (length tr)
        (snd (connect_and_authenticate w secret_dict port dbname use_ssl tr))) = [] \<or>
      sslmodes (drop (length tr)
        (snd (connect_and_authenticate w secret_dict port dbname use_ssl tr))) =
        [if use_ssl then ''require'' else ''prefer'']"
    by (cases rule: connect_and_authenticate_cases [of w secret_dict port dbname use_ssl tr]) auto
  obtain use_ssl' fall_back where cfg: "get_ssl_config secret_dict = (use_ssl', fall_back)"
    by (cases "get_ssl_config secret_dict")
  let ?first = "if use_ssl' then ''require'' else ''prefer''"
  let ?modes = "sslmodes (drop (length tr) (snd (get_connection w secret_dict tr)))"
  let ?dbname = "case secret_dict ''dbname'' of None \<Rightarrow> JStr ''postgres''
                   | Some JNull \<Rightarrow> JStr ''postgres'' | Some v \<Rightarrow> v"
  have two: "?modes = [] \<or> ?modes = [?first] \<or> (fall_back \<and> ?modes = [?first, ''prefer''])"
  proof (cases "case secret_dict ''port'' of None \<Rightarrow> Inr 5432 | Some p \<Rightarrow> py_int w p")
    case (Inl e)
    then show ?thesis by (simp add: get_connection_def io_bind_def io_simps)
  next
    case (Inr port)
    then have g: "get_connection w secret_dict tr =
        io_bind (connect_and_authenticate w secret_dict port ?dbname use_ssl') (\<lambda>conn.
          if conn \<noteq> None \<or> \<not> fall_back then io_return conn
          else connect_and_authenticate w secret_dict port ?dbname False) tr"
      by (simp add: get_connection_def io_bind_def io_simps cfg Let_def)
    show ?thesis
    proof (cases rule: connect_and_authenticate_cases [of w secret_dict port ?dbname use_ssl' tr])
      case none
      have "connect_and_authenticate w secret_dict port ?dbname False tr = (Inr None, tr)"
        using none by (rule connect_and_authenticate_none)
      with none g show ?thesis by (simp add: io_bind_def io_simps)
    next
      case (attempt args r)
      show ?thesis
      proof (cases "r \<noteq> None \<or> \<not> fall_back")
        case True
        with attempt g show ?thesis by (auto simp: io_bind_def io_simps)
      next
        case False
        with attempt g have g': "get_connection w secret_dict tr =
            connect_and_authenticate w secret_dict port ?dbname False (tr @ [Connect args])"
          by (auto simp: io_bind_def io_simps)
        show ?thesis
          by (cases rule: connect_and_authenticate_cases
                [of w secret_dict port ?dbname False "tr @ [Connect args]"])
             (use g' attempt False in auto)
      qed
    qed
  qed
  from two have three: "''disable'' \<notin> set ?modes" by (auto split: if_splits)
  from one two three show ?thesis by (simp add: cfg Let_def)
qed

theorem connection_sslmodes_witness:
  "sslmodes (snd (get_connection silent_world app_payload [])) = [''require'', ''prefer'']"
  using connection_sslmodes [of "[]" silent_world app_payload 5432 "JStr ''postgres''" True]
  by (simp add: get_connection_def connect_and_authenticate_def get_ssl_config_def
      app_payload_def silent_world_def io_bind_def io_simps Let_def)

subsection \<open>C9: create\_secret with a pending version in place\<close>

lemma check_required_error:
  "check_required fs d = Inl e \<Longrightarrow> \<exists>m. e = KeyError m"
  by (induction fs) (auto split: if_splits)

lemma check_required_present:
  "check_required fs d = Inr u \<Longrightarrow> f \<in> set fs \<Longrightarrow> d f \<noteq> None"
  by (induction fs) (auto split: if_splits)

text \<open>Reading a secret that is not a master secret: one call, and its outcomes.\<close>

lemma get_secret_dict_plain:
  assumes "get_secret_dict w arn stage token False tr = (r, tr')"
  shows "tr' = tr @ [GetSecretValue arn (if token = None \<or> token = Some [] then None else token) stage]"
    and "r = Inl ResourceNotFoundException \<Longrightarrow>
         get_secret_value w tr arn (if token = None \<or> token = Some [] then None else token) stage =
           Inl ResourceNotFoundException"
  using assms
  by (auto simp: get_secret_dict_def Let_def io_bind_def io_simps get_item_def
      split: sum.splits option.splits if_splits dest: check_required_error)


text \<open>
  C9.  Let the token be a proper (non-empty) one, and let the store not answer
  \<^verbatim>\<open>ResourceNotFoundException\<close> when \<open>create_secret\<close> reads the version of that token
  staged \<^verbatim>\<open>AWSPENDING\<close>, as it does not when that version exists.  Then \<open>create_secret\<close>
  makes its one or two reads and nothing else: no call that changes the store is added
  to the trace, so \<^verbatim>\<open>put_secret_value\<close> is not called and the pending payload stays
  what it was.
\<close>

theorem create_secret_keeps_pending:
  assumes "token \<noteq> []"
    and "get_secret_value w (tr @ [GetSecretValue arn None ''AWSCURRENT'']) arn (Some token)
           ''AWSPENDING'' \<noteq> Inl ResourceNotFoundException"
  shows "(snd (create_secret w arn token tr) = tr @ [GetSecretValue arn None ''AWSCURRENT''] \<or>
          snd (create_secret w arn token tr) =
            tr @ [GetSecretValue arn None ''AWSCURRENT'',
                  GetSecretValue arn (Some token) ''AWSPENDING'']) \<and>
         filter is_store_write (snd (create_secret w arn token tr)) = filter is_store_write tr"
proof -
  let ?tr1 = "tr @ [GetSecretValue arn None ''AWSCURRENT'']"
  obtain r1 tr1 where c: "get_secret_dict w arn ''AWSCURRENT'' None False tr = (r1, tr1)"
    by (cases "get_secret_dict w arn ''AWSCURRENT'' None False tr")
  from get_secret_dict_plain(1) [OF c] have tr1: "tr1 = ?tr1" by simp
  have "snd (create_secret w arn token tr) = ?tr1 \<or>
        snd (create_secret w arn token tr) =
          ?tr1 @ [GetSecretValue arn (Some token) ''AWSPENDING'']"
  proof (cases r1)
    case (Inl e)
    with c tr1 show ?thesis by (simp add: create_secret_def io_bind_def)
  next
    case (Inr current_dict)
    obtain r2 tr2 where
      p: "get_secret_dict w arn ''AWSPENDING'' (Some token) False ?tr1 = (r2, tr2)"
      by (cases "get_secret_dict w arn ''AWSPENDING'' (Some token) False ?tr1")
    from get_secret_dict_plain(1) [OF p] assms(1)
    have tr2: "tr2 = ?tr1 @ [GetSecretValue arn (Some token) ''AWSPENDING'']" by simp
    from get_secret_dict_plain(2) [OF p] assms
    have "r2 \<noteq> Inl ResourceNotFoundException" by auto
    with c tr1 Inr p tr2 show ?thesis
      by (cases r2) (simp_all add: create_secret_def io_bind_def)
  qed
  then show ?thesis by auto
qed

theorem create_secret_keeps_pending_witness:
  "create_secret (rotation_world clone_payload admin_payload) ''arn'' ''v2'' [] =
     (Inr (), [GetSecretValue ''arn'' None ''AWSCURRENT'',
               GetSecretValue ''arn'' (Some ''v2'') ''AWSPENDING''])"
proof -
  let ?w = "rotation_world clone_payload admin_payload"
  have a: "''v2'' \<noteq> []" by simp
  have b: "get_secret_value ?w ([] @ [GetSecretValue ''arn'' None ''AWSCURRENT'']) ''arn''
      (Some ''v2'') ''AWSPENDING'' \<noteq> Inl ResourceNotFoundException"
    by (simp add: rotation_world_def silent_world_def)
  have c: "fst (create_secret ?w ''arn'' ''v2'' []) = Inr ()"
    by (simp add: create_secret_def get_secret_dict_def rotation_world_def silent_world_def
        app_payload_def clone_payload_def required_fields_def supported_engines_def
        get_item_def io_bind_def io_simps Let_def)
  from create_secret_keeps_pending [OF a b] c show ?thesis
    by (cases "create_secret ?w ''arn'' ''v2'' []")
       (simp add: create_secret_def get_secret_dict_def rotation_world_def silent_world_def
        app_payload_def clone_payload_def required_fields_def supported_engines_def
        get_item_def io_bind_def io_simps Let_def)
qed

subsection \<open>C8: a master secret of user name and password only\<close>

text \<open>A payload of exactly the user name and the password has no other member.\<close>

lemma only_credentials:
  assumes "dom parsed = {''username'', ''password''}"
  shows "parsed ''host'' = None" "parsed ''engine'' = None" "parsed ''port'' = None"
    "parsed ''username'' \<noteq> None" "parsed ''password'' \<noteq> None"
proof -
  have "''host'' \<notin> dom parsed" "''engine'' \<notin> dom parsed" "''port'' \<notin> dom parsed"
    "''username'' \<in> dom parsed" "''password'' \<in> dom parsed"
    unfolding assms by simp_all
  then show "parsed ''host'' = None" "parsed ''engine'' = None" "parsed ''port'' = None"
    "parsed ''username'' \<noteq> None" "parsed ''password'' \<noteq> None"
    by (simp_all add: dom_def)
qed

text \<open>The master branch of \<open>get_secret_dict\<close>, up to the lookup of the linkage.\<close>

lemma get_secret_dict_master:
  assumes v: "vid = (if token = None \<or> token = Some [] then None else token)"
    and s: "get_secret_value w tr arn vid stage = Inr (Some plaintext)"
    and j: "json_loads w plaintext = Some parsed"
    and k: "dom parsed = {''username'', ''password''}"
  shows "get_secret_dict w arn stage token True tr =
     io_bind
       (io_bind (fetch_instance_arn_from_system_tags w arn) (\<lambda>db_instance_info.
          case db_instance_info of
            None \<Rightarrow> io_return parsed
          | Some info \<Rightarrow> get_connection_params_from_rds_api w parsed info))
       (\<lambda>secret_dict.
          io_bind (io_lift (check_required required_fields secret_dict)) (\<lambda>_.
          io_bind (io_lift (get_item secret_dict ''engine'')) (\<lambda>engine.
          if \<not> list_ex (\<lambda>e. py_eq engine (JStr e)) supported_engines
          then io_raise (KeyError
            ''Database engine must be set to 'postgres' in order to use this rotation lambda'')
          else io_return secret_dict)))
       (tr @ [GetSecretValue arn vid stage])"
  using s j k unfolding get_secret_dict_def v [symmetric] Let_def
  by (simp add: io_bind_def io_simps)

text \<open>
  C8.  Let \<open>get_secret_dict\<close> be called for a master secret whose parsed payload has
  exactly the keys \<^verbatim>\<open>username\<close> and \<^verbatim>\<open>password\<close>, and let the describe call on the
  secret succeed.  With no linkage tag (no tags at all, or none of the two names) the
  failure is the KeyError of the required-field check, for \<^verbatim>\<open>host\<close>, after the describe
  call.  With a linkage ARN of more than 256 characters the failure is the ValueError
  of the ARN check, at once: no call to the control plane is made.  With a linkage ARN of
  an instance or of a cluster that the control plane returns with endpoint, port and a
  supported engine, the result is the payload with \<^verbatim>\<open>host\<close>, \<^verbatim>\<open>port\<close> and
  \<^verbatim>\<open>engine\<close> set from that answer.
\<close>

theorem get_secret_dict_master_linkage:
  assumes v: "vid = (if token = None \<or> token = Some [] then None else token)"
    and s: "get_secret_value w tr arn vid stage = Inr (Some plaintext)"
    and j: "json_loads w plaintext = Some parsed"
    and k: "dom parsed = {''username'', ''password''}"
    and m: "describe_secret w (tr @ [GetSecretValue arn vid stage]) arn = Inr metadata"
    and t: "tr1 = tr @ [GetSecretValue arn vid stage, DescribeSecret arn]"
  shows "(Tags metadata = None \<or> (Tags metadata = Some tags \<and> scan_tags tags None = None) \<longrightarrow>
            get_secret_dict w arn stage token True tr =
              (Inl (KeyError ''host key is missing from secret JSON''), tr1)) \<and>
         (Tags metadata = Some tags \<and> scan_tags tags None = Some (tag, linked_arn) \<and>
          length linked_arn > 256 \<longrightarrow>
            get_secret_dict w arn stage token True tr =
              (Inl (ValueError
                 ''%s is not a valid DB Instance ARN. It exceeds the maximum length of %d.''),
               tr1)) \<and>
         (Tags metadata = Some tags \<and>
          scan_tags tags None = Some (''aws:rds:primarydbinstancearn'', linked_arn) \<and>
          length linked_arn \<le> 256 \<and>
          describe_db_instances w tr1 linked_arn = Inr (inst # insts) \<and>
          i_Endpoint inst = Some (address, port) \<and> i_Engine inst = Some engine \<and>
          engine \<in> set supported_engines \<longrightarrow>
            get_secret_dict w arn stage token True tr =
              (Inr (parsed(''host'' \<mapsto> JStr address, ''port'' \<mapsto> JInt port,
                      ''engine'' \<mapsto> JStr engine)),
               tr1 @ [DescribeDBInstances linked_arn])) \<and>
         (Tags metadata = Some tags \<and>
          scan_tags tags None = Some (''aws:rds:primarydbclusterarn'', linked_arn) \<and>
          length linked_arn \<le> 256 \<and>
          describe_db_clusters w tr1 linked_arn = Inr (clu # clus) \<and>
          c_Endpoint clu = Some address \<and> c_Port clu = Some port \<and> c_Engine clu = Some engine \<and>
          engine \<in> set supported_engines \<longrightarrow>
            get_secret_dict w arn stage token True tr =
              (Inr (parsed(''host'' \<mapsto> JStr address, ''port'' \<mapsto> JInt port,
                      ''engine'' \<mapsto> JStr engine)),
               tr1 @ [DescribeDBClusters linked_arn]))"
proof -
  note g = get_secret_dict_master [OF v s j k]
  note oc = only_credentials [OF k]
  have missing: "check_required required_fields parsed =
      Inl (KeyError ''host key is missing from secret JSON'')"
    using oc by (simp add: required_fields_def)
  have resolved: "check_required required_fields
      (parsed(''host'' \<mapsto> JStr a, ''port'' \<mapsto> JInt p, ''engine'' \<mapsto> JStr e)) = Inr ()" for a p e
    using oc by (simp add: required_fields_def)
  have engine_ok: "list_ex (\<lambda>e. py_eq (JStr engine) (JStr e)) supported_engines"
    if "engine \<in> set supported_engines"
    using that by (auto simp: list_ex_iff)
  have A: "get_secret_dict w arn stage token True tr =
      (Inl (KeyError ''host key is missing from secret JSON''), tr1)"
    if "Tags metadata = None \<or> (Tags metadata = Some tags \<and> scan_tags tags None = None)"
    using that m missing unfolding g t
    by (auto simp: fetch_instance_arn_from_system_tags_def io_bind_def io_simps)
  have B: "get_secret_dict w arn stage token True tr =
      (Inl (ValueError
         ''%s is not a valid DB Instance ARN. It exceeds the maximum length of %d.''), tr1)"
    if "Tags metadata = Some tags" "scan_tags tags None = Some (tag, linked_arn)"
      "length linked_arn > 256"
    using that m unfolding g t
    by (simp add: fetch_instance_arn_from_system_tags_def io_bind_def io_simps
        MAX_RDS_DB_INSTANCE_ARN_LENGTH_def)
  have C: "get_secret_dict w arn stage token True tr =
      (Inr (parsed(''host'' \<mapsto> JStr address, ''port'' \<mapsto> JInt port, ''engine'' \<mapsto> JStr engine)),
       tr1 @ [DescribeDBInstances linked_arn])"
    if "Tags metadata = Some tags"
      "scan_tags tags None = Some (''aws:rds:primarydbinstancearn'', linked_arn)"
      "length linked_arn \<le> 256"
      "describe_db_instances w tr1 linked_arn = Inr (inst # insts)"
      "i_Endpoint inst = Some (address, port)" "i_Engine inst = Some engine"
      "engine \<in> set supported_engines"
    using that(1-6) m resolved engine_ok [OF that(7)] unfolding g t
    by (simp add: fetch_instance_arn_from_system_tags_def get_connection_params_from_rds_api_def
        get_instance_info_from_rds_api_def io_bind_def io_simps get_item_def
        MAX_RDS_DB_INSTANCE_ARN_LENGTH_def)
  have D: "get_secret_dict w arn stage token True tr =
      (Inr (parsed(''host'' \<mapsto> JStr address, ''port'' \<mapsto> JInt port, ''engine'' \<mapsto> JStr engine)),
       tr1 @ [DescribeDBClusters linked_arn])"
    if "Tags metadata = Some tags"
      "scan_tags tags None = Some (''aws:rds:primarydbclusterarn'', linked_arn)"
      "length linked_arn \<le> 256"
      "describe_db_clusters w tr1 linked_arn = Inr (clu # clus)"
      "c_Endpoint clu = Some address" "c_Port clu = Some port" "c_Engine clu = Some engine"
      "engine \<in> set supported_engines"
    using that(1-7) m resolved engine_ok [OF that(8)] unfolding g t
    by (simp add: fetch_instance_arn_from_system_tags_def get_connection_params_from_rds_api_def
        get_cluster_info_from_rds_api_def io_bind_def io_simps get_item_def
        MAX_RDS_DB_INSTANCE_ARN_LENGTH_def)
  from A B C D show ?thesis by blast
qed


theorem get_secret_dict_master_linkage_witness:
  "get_secret_dict (linked_world None) ''master-arn'' ''AWSCURRENT'' None True [] =
     (Inl (KeyError ''host key is missing from secret JSON''),
      [GetSecretValue ''master-arn'' None ''AWSCURRENT'', DescribeSecret ''master-arn'']) \<and>
   get_secret_dict
       (linked_world (Some [(''aws:rds:primarydbinstancearn'', replicate 257 (CHR ''a''))]))
       ''master-arn'' ''AWSCURRENT'' None True [] =
     (Inl (ValueError ''%s is not a valid DB Instance ARN. It exceeds the maximum length of %d.''),
      [GetSecretValue ''master-arn'' None ''AWSCURRENT'', DescribeSecret ''master-arn'']) \<and>
   get_secret_dict (linked_world (Some [(''aws:rds:primaryDBInstanceArn'', db1_arn)]))
       ''master-arn'' ''AWSCURRENT'' None True [] =
     (Inr (managed_master(''host'' \<mapsto> JStr ''db1.abc.rds.amazonaws.com'', ''port'' \<mapsto> JInt 5432,
             ''engine'' \<mapsto> JStr ''postgres'')),
      [GetSecretValue ''master-arn'' None ''AWSCURRENT'', DescribeSecret ''master-arn'',
       DescribeDBInstances db1_arn])"
proof -
  let ?long = "[(''aws:rds:primarydbinstancearn'', replicate 257 (CHR ''a''))]"
  let ?link = "[(''aws:rds:primaryDBInstanceArn'', db1_arn)]"
  let ?tr1 = "[GetSecretValue ''master-arn'' None ''AWSCURRENT'', DescribeSecret ''master-arn'']"
  have v: "None = (if (None :: string option) = None \<or> None = Some [] then None else None)"
    by simp
  have s: "get_secret_value (linked_world tags) [] ''master-arn'' None ''AWSCURRENT'' =
      Inr (Some ''master'')" for tags
    by (simp add: linked_world_def rotation_world_def silent_world_def)
  have j: "json_loads (linked_world tags) ''master'' = Some managed_master" for tags
    by (simp add: linked_world_def rotation_world_def silent_world_def)
  have k: "dom managed_master = {''username'', ''password''}"
    by (auto simp: managed_master_def)
  have m: "describe_secret (linked_world tags)
      ([] @ [GetSecretValue ''master-arn'' None ''AWSCURRENT'']) ''master-arn'' =
      Inr \<lparr>RotationEnabled = Some True, VersionIdsToStages = Some one_current, Tags = tags\<rparr>"
    for tags
    by (simp add: linked_world_def rotation_world_def silent_world_def)
  have t: "?tr1 = [] @ ?tr1" by simp
  have long: "scan_tags ?long None = Some (''aws:rds:primarydbinstancearn'', replicate 257 (CHR ''a''))"
    by (simp add: lower_def lower_char_def)
  have link: "scan_tags ?link None = Some (''aws:rds:primarydbinstancearn'', db1_arn)"
    by (simp add: lower_def lower_char_def)
  have inst: "describe_db_instances (linked_world (Some ?link)) ?tr1 db1_arn = Inr (db1 # [])"
    by (simp add: linked_world_def rotation_world_def silent_world_def)
  have len: "length db1_arn \<le> 256"
    by (simp add: db1_arn_def)
  have a: "get_secret_dict (linked_world None) ''master-arn'' ''AWSCURRENT'' None True [] =
      (Inl (KeyError ''host key is missing from secret JSON''), ?tr1)"
    using get_secret_dict_master_linkage [OF v s [of None] j [of None] k m [of None] t]
    by simp
  have b: "get_secret_dict (linked_world (Some ?long)) ''master-arn'' ''AWSCURRENT'' None True [] =
      (Inl (ValueError ''%s is not a valid DB Instance ARN. It exceeds the maximum length of %d.''),
       ?tr1)"
    using get_secret_dict_master_linkage [OF v s [of "Some ?long"] j [of "Some ?long"] k
        m [of "Some ?long"] t, where tags = ?long and tag = "''aws:rds:primarydbinstancearn''"
        and linked_arn = "replicate 257 (CHR ''a'')"] long
    by simp
  have c: "get_secret_dict (linked_world (Some ?link)) ''master-arn'' ''AWSCURRENT'' None True [] =
      (Inr (managed_master(''host'' \<mapsto> JStr ''db1.abc.rds.amazonaws.com'', ''port'' \<mapsto> JInt 5432,
              ''engine'' \<mapsto> JStr ''postgres'')),
       ?tr1 @ [DescribeDBInstances db1_arn])"
    using get_secret_dict_master_linkage [OF v s [of "Some ?link"] j [of "Some ?link"] k
        m [of "Some ?link"] t, where tags = ?link and linked_arn = db1_arn and inst = db1 and insts = "[]"
        and address = "''db1.abc.rds.amazonaws.com''" and port = 5432 and engine = "''postgres''"]
      link inst len
    by (simp add: db1_def supported_engines_def)
  from a b c show ?thesis by simp
qed

subsection \<open>Helper facts on the database calls of a computation\<close>

lemma no_db_calls_basic:
  "no_db_calls (io_return x)" "no_db_calls (io_raise e)" "no_db_calls (io_lift r)"
  by (simp_all add: no_db_calls_def io_simps)

lemma no_db_calls_bind:
  assumes "no_db_calls m" and "\<And>x. no_db_calls (f x)"
  shows "no_db_calls (io_bind m f)"
  unfolding no_db_calls_def
proof
  fix tr
  obtain r tr' where m: "m tr = (r, tr')" by (cases "m tr")
  with assms(1) have a: "filter is_db_call tr' = filter is_db_call tr"
    by (auto simp: no_db_calls_def dest: spec [of _ tr])
  show "filter is_db_call (snd (io_bind m f tr)) = filter is_db_call tr"
  proof (cases r)
    case (Inl e)
    with m a show ?thesis by (simp add: io_bind_def)
  next
    case (Inr x)
    with m have "io_bind m f tr = f x tr'" by (simp add: io_bind_def)
    with assms(2) [of x] a show ?thesis by (simp add: no_db_calls_def)
  qed
qed

lemma no_db_calls_if:
  "no_db_calls a \<Longrightarrow> no_db_calls b \<Longrightarrow> no_db_calls (if c then a else b)"
  by simp

lemma no_db_calls_option:
  "no_db_calls a \<Longrightarrow> (\<And>y. no_db_calls (b y)) \<Longrightarrow>
   no_db_calls (case x of None \<Rightarrow> a | Some y \<Rightarrow> b y)"
  by (cases x) simp_all

lemma no_db_calls_instance: "no_db_calls (get_instance_info_from_rds_api w instance_id)"
  by (auto simp: no_db_calls_def get_instance_info_from_rds_api_def io_simps
      split: sum.splits list.splits)

lemma no_db_calls_cluster: "no_db_calls (get_cluster_info_from_rds_api w cluster_id)"
  by (auto simp: no_db_calls_def get_cluster_info_from_rds_api_def io_simps
      split: sum.splits list.splits)

lemmas no_db_calls_intros =
  no_db_calls_bind no_db_calls_basic no_db_calls_if no_db_calls_option
  no_db_calls_instance no_db_calls_cluster

lemma no_db_calls_master_host: "no_db_calls (get_cluster_info_from_master_host w master_dict)"
  unfolding get_cluster_info_from_master_host_def Let_def
  by (intro no_db_calls_intros)

lemma no_db_calls_replica: "no_db_calls (is_rds_replica_database w replica_dict master_dict)"
  unfolding is_rds_replica_database_def Let_def
  by (intro no_db_calls_intros no_db_calls_master_host)

lemma get_connection_connects:
  "\<exists>evs. snd (get_connection w d tr) = tr @ evs \<and> (\<forall>e \<in> set evs. \<exists>args. e = Connect args)"
proof (cases "case d ''port'' of None \<Rightarrow> Inr 5432 | Some p \<Rightarrow> py_int w p")
  case (Inl e)
  then show ?thesis by (simp add: get_connection_def io_bind_def io_simps)
next
  case (Inr port)
  obtain use_ssl fall_back where cfg: "get_ssl_config d = (use_ssl, fall_back)"
    by (cases "get_ssl_config d")
  let ?dbname = "case d ''dbname'' of None \<Rightarrow> JStr ''postgres''
                   | Some JNull \<Rightarrow> JStr ''postgres'' | Some v \<Rightarrow> v"
  from Inr have g: "get_connection w d tr =
      io_bind (connect_and_authenticate w d port ?dbname use_ssl) (\<lambda>conn.
        if conn \<noteq> None \<or> \<not> fall_back then io_return conn
        else connect_and_authenticate w d port ?dbname False) tr"
    by (simp add: get_connection_def io_bind_def io_simps cfg Let_def)
  show ?thesis
  proof (cases rule: connect_and_authenticate_cases [of w d port ?dbname use_ssl tr])
    case none
    have "connect_and_authenticate w d port ?dbname False tr = (Inr None, tr)"
      using none by (rule connect_and_authenticate_none)
    with none g show ?thesis by (simp add: io_bind_def io_simps)
  next
    case (attempt args r)
    show ?thesis
    proof (cases "r \<noteq> None \<or> \<not> fall_back")
      case True
      with attempt g show ?thesis by (auto simp: io_bind_def io_simps)
    next
      case False
      with attempt g have g': "get_connection w d tr =
          connect_and_authenticate w d port ?dbname False (tr @ [Connect args])"
        by (auto simp: io_bind_def io_simps)
      show ?thesis
        by (cases rule: connect_and_authenticate_cases
              [of w d port ?dbname False "tr @ [Connect args]"])
           (use g' in auto)
    qed
  qed
qed

lemma get_connection_no_statement:
  assumes "get_connection w d tr = (r, tr')"
  shows "filter is_db_statement tr' = filter is_db_statement tr"
proof -
  from get_connection_connects [of w d tr] assms obtain evs
    where "tr' = tr @ evs" "\<forall>e \<in> set evs. \<exists>args. e = Connect args" by auto
  moreover from this(2) have "filter is_db_statement evs = []"
    by (auto simp: filter_empty_conv)
  ultimately show ?thesis by simp
qed


subsection \<open>C6: set\_secret and a pending version that does not match\<close>

lemma py_eq_JStr: "py_eq (JStr a) v \<longleftrightarrow> v = JStr a"
  by (cases v) auto

lemma get_secret_dict_required:
  assumes "get_secret_dict w arn stage token master_secret tr = (Inr d, tr')"
  shows "d ''host'' \<noteq> None" "d ''username'' \<noteq> None" "d ''password'' \<noteq> None"
    "d ''engine'' \<noteq> None"
proof -
  from assms obtain u where "check_required required_fields d = Inr u"
    unfolding get_secret_dict_def Let_def io_bind_def io_simps
    by (auto split: sum.splits prod.splits if_splits)
  from check_required_present [OF this]
  show "d ''host'' \<noteq> None" "d ''username'' \<noteq> None" "d ''password'' \<noteq> None"
    "d ''engine'' \<noteq> None"
    by (simp_all add: required_fields_def)
qed

text \<open>
  C6 (as amended).  Let \<open>set_secret\<close> have read the current and the pending payload, let
  a connection with the current payload have opened, and let the current user name have
  an alternate \<open>alt\<close> (\<open>get_alt_username\<close> does not raise on it).  When the pending user
  name is not \<open>alt\<close>, or the pending host is not the current host, \<open>set_secret\<close> raises
  the ValueError of the user check, or else of the host check, right after closing that
  connection; no statement has been executed or committed on the database.
\<close>

theorem set_secret_state_mismatch:
  assumes cur: "get_secret_dict w arn ''AWSCURRENT'' None False tr = (Inr current_dict, tr1)"
    and pend: "get_secret_dict w arn ''AWSPENDING'' (Some token) False tr1 =
                 (Inr pending_dict, tr2)"
    and conn: "get_connection w current_dict tr2 = (Inr (Some conn), tr3)"
    and user: "current_dict ''username'' = Some (JStr u)"
    and alt: "get_alt_username u = Inr alt"
    and mismatch: "pending_dict ''username'' \<noteq> Some (JStr alt) \<or>
       (\<exists>ch ph. current_dict ''host'' = Some ch \<and> pending_dict ''host'' = Some ph \<and>
          \<not> py_eq ch ph)"
  shows "set_secret w arn token tr =
           (Inl (ValueError
              (if pending_dict ''username'' \<noteq> Some (JStr alt)
               then ''Attempting to modify user %s other than current user or clone %s''
               else ''Attempting to modify user for host %s other than current host %s'')),
            tr3 @ [Close conn]) \<and>
         filter is_db_statement (tr3 @ [Close conn]) = filter is_db_statement tr"
proof -
  from get_secret_dict_required [OF pend] obtain pu where pu: "pending_dict ''username'' = Some pu"
    by auto
  note start = set_secret_def
    io_bind_Inr [where m = "get_secret_dict w arn ''AWSCURRENT'' None False", OF cur]
    io_bind_Inr [where m = "get_secret_dict w arn ''AWSPENDING'' (Some token) False", OF pend]
    io_bind_Inr [where m = "get_connection w current_dict", OF conn]
  have result: "set_secret w arn token tr =
      (Inl (ValueError
         (if pending_dict ''username'' \<noteq> Some (JStr alt)
          then ''Attempting to modify user %s other than current user or clone %s''
          else ''Attempting to modify user for host %s other than current host %s'')),
       tr3 @ [Close conn])"
  proof (cases "pu = JStr alt")
    case False
    with user alt pu show ?thesis
      unfolding start
      by (simp add: io_bind_def io_simps conn_close_def sum_bind_def get_item_def as_str_def
          py_eq_JStr)
  next
    case True
    with mismatch pu obtain ch ph where "current_dict ''host'' = Some ch"
      "pending_dict ''host'' = Some ph" "\<not> py_eq ch ph"
      by auto
    with True user alt pu show ?thesis
      unfolding start
      by (simp add: io_bind_def io_simps conn_close_def sum_bind_def get_item_def as_str_def
          py_eq_JStr)
  qed
  from get_secret_dict_plain(1) [OF cur] get_secret_dict_plain(1) [OF pend]
    get_connection_no_statement [OF conn]
  have "filter is_db_statement (tr3 @ [Close conn]) = filter is_db_statement tr"
    by simp
  with result show ?thesis by simp
qed


lemmas payload_simps =
  app_payload_def clone_payload_def intruder_payload_def admin_payload_def
  required_fields_def supported_engines_def get_item_def

theorem set_secret_state_mismatch_witness:
  "set_secret (rotation_world intruder_payload admin_payload) ''arn'' ''v2'' [] =
     (Inl (ValueError ''Attempting to modify user %s other than current user or clone %s''),
      [GetSecretValue ''arn'' None ''AWSCURRENT'',
       GetSecretValue ''arn'' (Some ''v2'') ''AWSPENDING'',
       Connect app_conn, Close app_conn])"
proof -
  let ?w = "rotation_world intruder_payload admin_payload"
  let ?tr1 = "[GetSecretValue ''arn'' None ''AWSCURRENT'']"
  let ?tr2 = "?tr1 @ [GetSecretValue ''arn'' (Some ''v2'') ''AWSPENDING'']"
  have cur: "get_secret_dict ?w ''arn'' ''AWSCURRENT'' None False [] = (Inr app_payload, ?tr1)"
    by (simp add: get_secret_dict_def rotation_world_def silent_world_def payload_simps
        io_bind_def io_simps Let_def)
  have pend: "get_secret_dict ?w ''arn'' ''AWSPENDING'' (Some ''v2'') False ?tr1 =
      (Inr intruder_payload, ?tr2)"
    by (simp add: get_secret_dict_def rotation_world_def silent_world_def payload_simps
        io_bind_def io_simps Let_def)
  have conn: "get_connection ?w app_payload ?tr2 = (Inr (Some app_conn), ?tr2 @ [Connect app_conn])"
    by (simp add: get_connection_def connect_and_authenticate_def get_ssl_config_def
        rotation_world_def silent_world_def app_payload_def app_conn_def
        io_bind_def io_simps Let_def)
  have user: "app_payload ''username'' = Some (JStr ''app'')"
    by (simp add: app_payload_def)
  have alt: "get_alt_username ''app'' = Inr ''app_clone''"
    by (simp add: get_alt_username_def endswith_def clone_suffix_def)
  have mismatch: "intruder_payload ''username'' \<noteq> Some (JStr ''app_clone'') \<or>
      (\<exists>ch ph. app_payload ''host'' = Some ch \<and> intruder_payload ''host'' = Some ph \<and>
         \<not> py_eq ch ph)"
    by (simp add: intruder_payload_def)
  from set_secret_state_mismatch [OF cur pend conn user alt mismatch]
  show ?thesis by (simp add: intruder_payload_def)
qed


text \<open>
  The claim as stated fails when the current user name has no alternate: the current
  credential connects and the pending host is not the current host, yet
  \<open>get_alt_username\<close> raises its own ValueError at the user check, before the host check
  is reached.
\<close>

theorem set_secret_unclonable_name:
  "get_connection long_name_world long_payload
     [GetSecretValue ''arn'' None ''AWSCURRENT'',
      GetSecretValue ''arn'' (Some ''v2'') ''AWSPENDING''] =
     (Inr (Some long_conn),
      [GetSecretValue ''arn'' None ''AWSCURRENT'',
       GetSecretValue ''arn'' (Some ''v2'') ''AWSPENDING'', Connect long_conn]) \<and>
   long_payload ''host'' = Some (JStr ''db1.abc.rds.amazonaws.com'') \<and>
   moved_payload ''host'' = Some (JStr ''db2.abc.rds.amazonaws.com'') \<and>
   set_secret long_name_world ''arn'' ''v2'' [] =
     (Inl (ValueError
        ''Unable to clone user, username length with _clone appended would exceed 63 characters''),
      [GetSecretValue ''arn'' None ''AWSCURRENT'',
       GetSecretValue ''arn'' (Some ''v2'') ''AWSPENDING'',
       Connect long_conn, Close long_conn])"
  by (simp add: set_secret_def get_secret_dict_def get_connection_def
      connect_and_authenticate_def get_ssl_config_def get_alt_username_def endswith_def
      clone_suffix_def conn_close_def long_name_world_def rotation_world_def silent_world_def
      long_payload_def moved_payload_def long_conn_def app_conn_def long_name_def
      app_payload_def required_fields_def supported_engines_def get_item_def as_str_def
      sum_bind_def io_bind_def io_simps Let_def)

subsection \<open>Helper facts on the master login\<close>

lemma io_grows_basic:
  "io_grows (io_return x)" "io_grows (io_raise e)" "io_grows (io_lift r)"
  "io_grows (io_call ev answer)" "io_grows (conn_close conn)"
  "io_grows (cur_execute w conn sql params)" "io_grows (conn_commit w conn)"
  by (simp_all add: io_grows_def io_simps conn_close_def cur_execute_def conn_commit_def)

lemma io_bind_grows_from:
  assumes "m t = (r, t')" and "\<And>x. io_grows (f x)"
  shows "\<exists>evs. snd (io_bind m f t) = t' @ evs"
proof (cases r)
  case (Inl e)
  with assms(1) show ?thesis by (simp add: io_bind_def)
next
  case (Inr x)
  with assms(1) have "io_bind m f t = f x t'" by (simp add: io_bind_def)
  with assms(2) [of x] show ?thesis by (simp add: io_grows_def)
qed

lemma io_grows_bind:
  assumes "io_grows m" and "\<And>x. io_grows (f x)"
  shows "io_grows (io_bind m f)"
  unfolding io_grows_def
proof
  fix tr
  obtain r tr' where m: "m tr = (r, tr')" by (cases "m tr")
  from assms(1) m obtain evs where "tr' = tr @ evs"
    by (auto simp: io_grows_def dest: spec [of _ tr])
  moreover from io_bind_grows_from [where m = m and f = f, OF m assms(2)] obtain evs'
    where "snd (io_bind m f tr) = tr' @ evs'" by blast
  ultimately show "\<exists>evs. snd (io_bind m f tr) = tr @ evs" by simp
qed

lemma io_grows_if:
  "io_grows a \<Longrightarrow> io_grows b \<Longrightarrow> io_grows (if c then a else b)"
  by simp

lemma io_grows_finally:
  assumes "io_grows body" and "io_grows fin"
  shows "io_grows (io_finally body fin)"
  unfolding io_grows_def
proof
  fix tr
  obtain r tr' where b: "body tr = (r, tr')" by (cases "body tr")
  obtain u tr'' where f: "fin tr' = (u, tr'')" by (cases "fin tr'")
  from assms(1) b obtain evs where "tr' = tr @ evs"
    by (auto simp: io_grows_def dest: spec [of _ tr])
  moreover from assms(2) f obtain evs' where "tr'' = tr' @ evs'"
    by (auto simp: io_grows_def dest: spec [of _ tr'])
  ultimately show "\<exists>evs. snd (io_finally body fin tr) = tr @ evs"
    using b f by (simp add: io_finally_def)
qed

lemma io_grows_option:
  "io_grows a \<Longrightarrow> (\<And>y. io_grows (b y)) \<Longrightarrow>
   io_grows (case x of None \<Rightarrow> a | Some y \<Rightarrow> b y)"
  by (cases x) simp_all

lemmas io_grows_intros =
  io_grows_bind io_grows_basic io_grows_if io_grows_finally io_grows_option

lemma get_connection_first_attempt:
  assumes "d ''host'' = Some h" and "d ''username'' = Some u" and "d ''password'' = Some p"
    and "(case d ''port'' of None \<Rightarrow> Inr 5432 | Some v \<Rightarrow> py_int w v) = Inr port"
  shows "\<exists>r args rest. get_connection w d t = (Inr r, t @ Connect args # rest) \<and>
           ca_port args = port \<and> ca_host args = h \<and> ca_user args = u \<and> ca_password args = p"
proof -
  obtain use_ssl fall_back where cfg: "get_ssl_config d = (use_ssl, fall_back)"
    by (cases "get_ssl_config d")
  let ?dbname = "case d ''dbname'' of None \<Rightarrow> JStr ''postgres''
                   | Some JNull \<Rightarrow> JStr ''postgres'' | Some v \<Rightarrow> v"
  let ?args = "\<lambda>ssl. \<lparr>ca_host = h, ca_port = port, ca_dbname = ?dbname, ca_user = u,
      ca_password = p, ca_sslmode = (if ssl then ''require'' else ''prefer'')\<rparr>"
  have caa: "connect_and_authenticate w d port ?dbname ssl t' =
      (Inr (if psycopg2_connect w t' (?args ssl) then Some (?args ssl) else None),
       t' @ [Connect (?args ssl)])" for ssl t'
    using assms(1-3) by (simp add: connect_and_authenticate_def Let_def)
  have g: "get_connection w d t =
      io_bind (connect_and_authenticate w d port ?dbname use_ssl) (\<lambda>conn.
        if conn \<noteq> None \<or> \<not> fall_back then io_return conn
        else connect_and_authenticate w d port ?dbname False) t"
    using assms(4) by (simp add: get_connection_def io_bind_def io_simps cfg Let_def)
  show ?thesis
  proof (cases "psycopg2_connect w t (?args use_ssl) \<or> \<not> fall_back")
    case True
    then have "get_connection w d t =
        (Inr (if psycopg2_connect w t (?args use_ssl) then Some (?args use_ssl) else None),
         t @ Connect (?args use_ssl) # [])"
      unfolding g by (auto simp: io_bind_def io_simps caa)
    then show ?thesis by force
  next
    case False
    then have "get_connection w d t =
        (Inr (if psycopg2_connect w (t @ [Connect (?args use_ssl)]) (?args False)
              then Some (?args False) else None),
         t @ Connect (?args use_ssl) # [Connect (?args False)])"
      unfolding g by (auto simp: io_bind_def io_simps caa)
    then show ?thesis by force
  qed
qed


lemma set_secret_as_master_logs_in:
  assumes "d ''host'' = Some h" and "d ''username'' = Some u" and "d ''password'' = Some p"
  shows "logs_in_with w d t (set_secret_as_master w current_dict pending_dict d t)"
proof (cases "case d ''port'' of None \<Rightarrow> Inr 5432 | Some v \<Rightarrow> py_int w v")
  case (Inl e)
  then have "get_connection w d t = (Inl e, t)"
    by (simp add: get_connection_def io_bind_def io_simps)
  then have "set_secret_as_master w current_dict pending_dict d t = (Inl e, t)"
    by (simp add: set_secret_as_master_def io_bind_def)
  with Inl show ?thesis by (simp add: logs_in_with_def)
next
  case (Inr port)
  from get_connection_first_attempt [OF assms Inr, of t] obtain r args rest
    where gc: "get_connection w d t = (Inr r, t @ Connect args # rest)"
      and args: "ca_port args = port" "ca_host args = h" "ca_user args = u"
        "ca_password args = p"
    by blast
  have "\<exists>evs. snd (set_secret_as_master w current_dict pending_dict d t) =
      (t @ Connect args # rest) @ evs"
    unfolding set_secret_as_master_def
    by (rule io_bind_grows_from [where m = "get_connection w d", OF gc])
       (intro io_grows_intros)
  then obtain evs where "snd (set_secret_as_master w current_dict pending_dict d t) =
      t @ Connect args # (rest @ evs)"
    by auto
  with Inr args assms show ?thesis
    unfolding logs_in_with_def by auto
qed

subsection \<open>C7: set\_secret and the topology of the master\<close>

text \<open>
  C7.  Let \<open>set_secret\<close> have passed the checks of user and host, and let \<open>master_dict\<close>
  be the master payload it has fetched, with the database name of the current payload.
  When the current host differs from the master's and \<open>is_rds_replica_database\<close>
  returns false, \<open>set_secret\<close> raises the ValueError of the topology check, and no call
  to the database is made after the master payload is known.  When the hosts are equal
  (the replica check is then not made), or the check returns true, \<open>set_secret\<close> goes on
  as \<open>set_secret_as_master\<close> and logs in with the master payload: unless the conversion
  of the port raises, its next call is a connection attempt with the host, the user name
  and the password of the master.
\<close>

theorem set_secret_topology:
  assumes cur: "get_secret_dict w arn ''AWSCURRENT'' None False tr = (Inr current_dict, tr1)"
    and pend: "get_secret_dict w arn ''AWSPENDING'' (Some token) False tr1 =
                 (Inr pending_dict, tr2)"
    and conn: "get_connection w current_dict tr2 = (Inr (Some conn), tr3)"
    and user: "current_dict ''username'' = Some (JStr u)"
    and alt: "get_alt_username u = Inr alt"
    and same_user: "pending_dict ''username'' = Some (JStr alt)"
    and hosts: "current_dict ''host'' = Some ch" "pending_dict ''host'' = Some ph" "py_eq ch ph"
    and conn2: "get_connection w current_dict (tr3 @ [Close conn]) = (Inr (Some conn2), tr4)"
    and marn: "current_dict ''masterarn'' = Some (JStr master_arn)"
    and master: "get_secret_dict w master_arn ''AWSCURRENT'' None True (tr4 @ [Close conn2]) =
                   (Inr fetched, tr5)"
    and md: "master_dict = fetched(''dbname'' \<mapsto>
               (case current_dict ''dbname'' of None \<Rightarrow> JNull | Some v \<Rightarrow> v))"
    and mh: "fetched ''host'' = Some mh"
  shows "(\<not> py_eq ch mh \<and>
          is_rds_replica_database w current_dict master_dict tr5 = (Inr False, tr6) \<longrightarrow>
            set_secret w arn token tr =
              (Inl (ValueError
                 ''Current database host %s is not the same host as/rds replica of master %s''),
               tr6) \<and>
            filter is_db_call tr6 = filter is_db_call tr5) \<and>
         (py_eq ch mh \<longrightarrow>
            set_secret w arn token tr =
              set_secret_as_master w current_dict pending_dict master_dict tr5 \<and>
            logs_in_with w master_dict tr5 (set_secret w arn token tr)) \<and>
         (\<not> py_eq ch mh \<and>
          is_rds_replica_database w current_dict master_dict tr5 = (Inr True, tr6) \<longrightarrow>
            set_secret w arn token tr =
              set_secret_as_master w current_dict pending_dict master_dict tr6 \<and>
            logs_in_with w master_dict tr6 (set_secret w arn token tr))"
proof -
  have close1: "conn_close conn tr3 = (Inr (), tr3 @ [Close conn])"
    and close2: "conn_close conn2 tr4 = (Inr (), tr4 @ [Close conn2])"
    by (simp_all add: conn_close_def)
  have run: "set_secret w arn token tr =
      io_bind
        (if \<not> py_eq ch mh
         then io_bind (is_rds_replica_database w current_dict master_dict)
                (\<lambda>is_replica. io_return (\<not> is_replica))
         else io_return False) (\<lambda>mismatch.
      if mismatch
      then io_raise (ValueError
        ''Current database host %s is not the same host as/rds replica of master %s'')
      else set_secret_as_master w current_dict pending_dict master_dict) tr5"
    using user alt same_user hosts marn mh
    unfolding set_secret_def md
      io_bind_Inr [where m = "get_secret_dict w arn ''AWSCURRENT'' None False", OF cur]
      io_bind_Inr [where m = "get_secret_dict w arn ''AWSPENDING'' (Some token) False", OF pend]
      io_bind_Inr [where m = "get_connection w current_dict", OF conn]
    by (simp add: io_bind_def io_simps sum_bind_def get_item_def as_str_def py_eq_JStr
        close1 conn2 close2 master Let_def)
  have A: "set_secret w arn token tr =
      (Inl (ValueError
         ''Current database host %s is not the same host as/rds replica of master %s''), tr6)"
    if "\<not> py_eq ch mh" "is_rds_replica_database w current_dict master_dict tr5 = (Inr False, tr6)"
    using that unfolding run by (simp add: io_bind_def io_simps)
  have A': "filter is_db_call tr6 = filter is_db_call tr5"
    if "is_rds_replica_database w current_dict master_dict tr5 = (Inr False, tr6)"
    using that no_db_calls_replica [of w current_dict master_dict]
    by (auto simp: no_db_calls_def dest: spec [of _ tr5])
  have B: "set_secret w arn token tr =
      set_secret_as_master w current_dict pending_dict master_dict tr5"
    if "py_eq ch mh"
    using that unfolding run by (simp add: io_bind_def io_simps)
  have C: "set_secret w arn token tr =
      set_secret_as_master w current_dict pending_dict master_dict tr6"
    if "\<not> py_eq ch mh" "is_rds_replica_database w current_dict master_dict tr5 = (Inr True, tr6)"
    using that unfolding run by (simp add: io_bind_def io_simps)
  from get_secret_dict_required [OF master] obtain mu mp
    where "fetched ''username'' = Some mu" "fetched ''password'' = Some mp"
    by auto
  with mh have creds: "master_dict ''host'' = Some mh" "master_dict ''username'' = Some mu"
    "master_dict ''password'' = Some mp"
    unfolding md by simp_all
  have L: "logs_in_with w master_dict t
      (set_secret_as_master w current_dict pending_dict master_dict t)" for t
    by (rule set_secret_as_master_logs_in [OF creds])
  have B': "logs_in_with w master_dict tr5 (set_secret w arn token tr)"
    if "py_eq ch mh"
    using B [OF that] L [of tr5] by simp
  have C': "logs_in_with w master_dict tr6 (set_secret w arn token tr)"
    if "\<not> py_eq ch mh" "is_rds_replica_database w current_dict master_dict tr5 = (Inr True, tr6)"
    using C [OF that] L [of tr6] by simp
  from A A' B B' C C' show ?thesis by blast
qed

lemma not_only_credentials:
  assumes "d ''host'' \<noteq> None"
  shows "dom d \<noteq> {''username'', ''password''}"
proof
  assume e: "dom d = {''username'', ''password''}"
  from assms have "''host'' \<in> dom d" by (simp add: domIff)
  with e show False by simp
qed

theorem set_secret_topology_witness:
  "set_secret (replica_world (Some ''other'')) ''arn'' ''v2'' [] =
     (Inl (ValueError
        ''Current database host %s is not the same host as/rds replica of master %s''),
      checked_trace @ [DescribeDBInstances ''db1'']) \<and>
   set_secret (rotation_world clone_payload admin_payload) ''arn'' ''v2'' [] =
     set_secret_as_master (rotation_world clone_payload admin_payload) app_payload clone_payload
       (admin_payload(''dbname'' \<mapsto> JNull)) checked_trace \<and>
   logs_in_with (rotation_world clone_payload admin_payload)
     (admin_payload(''dbname'' \<mapsto> JNull)) checked_trace
     (set_secret (rotation_world clone_payload admin_payload) ''arn'' ''v2'' []) \<and>
   snd (set_secret (rotation_world clone_payload admin_payload) ''arn'' ''v2'' []) =
     checked_trace @
       [Connect admin_conn,
        Execute admin_conn ''SELECT quote_ident(%s)'' [JStr ''app_clone''],
        Close admin_conn] \<and>
   set_secret (replica_world (Some ''master1'')) ''arn'' ''v2'' [] =
     set_secret_as_master (replica_world (Some ''master1'')) app_payload clone_payload
       (remote_admin(''dbname'' \<mapsto> JNull)) (checked_trace @ [DescribeDBInstances ''db1'']) \<and>
   logs_in_with (replica_world (Some ''master1'')) (remote_admin(''dbname'' \<mapsto> JNull))
     (checked_trace @ [DescribeDBInstances ''db1''])
     (set_secret (replica_world (Some ''master1'')) ''arn'' ''v2'' [])"
proof -
  let ?tr1 = "[GetSecretValue ''arn'' None ''AWSCURRENT'']"
  let ?tr2 = "?tr1 @ [GetSecretValue ''arn'' (Some ''v2'') ''AWSPENDING'']"
  let ?tr3 = "?tr2 @ [Connect app_conn]"
  let ?tr4 = "(?tr3 @ [Close app_conn]) @ [Connect app_conn]"
  let ?same = "rotation_world clone_payload admin_payload"
  note worlds = replica_world_def rotation_world_def silent_world_def
  have cur: "get_secret_dict (replica_world src) ''arn'' ''AWSCURRENT'' None False [] =
        (Inr app_payload, ?tr1)"
      "get_secret_dict ?same ''arn'' ''AWSCURRENT'' None False [] = (Inr app_payload, ?tr1)"
    for src
    by (simp_all add: get_secret_dict_def worlds payload_simps io_bind_def io_simps Let_def)
  have pend: "get_secret_dict (replica_world src) ''arn'' ''AWSPENDING'' (Some ''v2'') False ?tr1 =
        (Inr clone_payload, ?tr2)"
      "get_secret_dict ?same ''arn'' ''AWSPENDING'' (Some ''v2'') False ?tr1 =
        (Inr clone_payload, ?tr2)"
    for src
    by (simp_all add: get_secret_dict_def worlds payload_simps io_bind_def io_simps Let_def)
  have conn: "get_connection (replica_world src) app_payload t = (Inr (Some app_conn), t @ [Connect app_conn])"
      "get_connection ?same app_payload t = (Inr (Some app_conn), t @ [Connect app_conn])"
    for src t
    by (simp_all add: get_connection_def connect_and_authenticate_def get_ssl_config_def
        worlds app_payload_def app_conn_def io_bind_def io_simps Let_def)
  have user: "app_payload ''username'' = Some (JStr ''app'')"
    and marn: "app_payload ''masterarn'' = Some (JStr ''master-arn'')"
    and same_user: "clone_payload ''username'' = Some (JStr ''app_clone'')"
    and hosts: "app_payload ''host'' = Some (JStr ''db1.abc.rds.amazonaws.com'')"
      "clone_payload ''host'' = Some (JStr ''db1.abc.rds.amazonaws.com'')"
      "py_eq (JStr ''db1.abc.rds.amazonaws.com'') (JStr ''db1.abc.rds.amazonaws.com'')"
    and dbname: "app_payload ''dbname'' = None"
    by (simp_all add: app_payload_def clone_payload_def)
  have alt: "get_alt_username ''app'' = Inr ''app_clone''"
    by (simp add: get_alt_username_def endswith_def clone_suffix_def)
  have mh: "remote_admin ''host'' = Some (JStr ''master1.abc.rds.amazonaws.com'')"
      "admin_payload ''host'' = Some (JStr ''db1.abc.rds.amazonaws.com'')"
    by (simp_all add: remote_admin_def admin_payload_def)
  have nc: "dom remote_admin \<noteq> {''username'', ''password''}"
      "dom admin_payload \<noteq> {''username'', ''password''}"
    by (rule not_only_credentials, simp add: mh)+
  have fields: "remote_admin ''username'' = Some (JStr ''admin'')"
      "remote_admin ''password'' = Some (JStr ''secret'')"
      "remote_admin ''engine'' = Some (JStr ''postgres'')"
      "admin_payload ''username'' = Some (JStr ''admin'')"
      "admin_payload ''password'' = Some (JStr ''secret'')"
      "admin_payload ''engine'' = Some (JStr ''postgres'')"
    by (simp_all add: remote_admin_def admin_payload_def)
  have loads: "json_loads (replica_world src) ''master'' = Some remote_admin"
      "json_loads ?same ''master'' = Some admin_payload"
      "get_secret_value (replica_world src) t ''master-arn'' None ''AWSCURRENT'' = Inr (Some ''master'')"
      "get_secret_value ?same t ''master-arn'' None ''AWSCURRENT'' = Inr (Some ''master'')"
    for src t
    by (simp_all add: worlds)
  have master: "get_secret_dict (replica_world src) ''master-arn'' ''AWSCURRENT'' None True
        (?tr4 @ [Close app_conn]) = (Inr remote_admin, checked_trace)"
      "get_secret_dict ?same ''master-arn'' ''AWSCURRENT'' None True
        (?tr4 @ [Close app_conn]) = (Inr admin_payload, checked_trace)"
    for src
    by (simp_all add: get_secret_dict_def io_bind_def io_simps Let_def loads nc mh fields
        required_fields_def supported_engines_def get_item_def checked_trace_def)
  have replica: "is_rds_replica_database (replica_world src) app_payload
        (remote_admin(''dbname'' \<mapsto> JNull)) checked_trace =
        (Inr (src = Some ''master1''), checked_trace @ [DescribeDBInstances ''db1''])"
    for src
    by (simp add: is_rds_replica_database_def get_instance_info_from_rds_api_def worlds
        app_payload_def remote_admin_def admin_payload_def db1_def instance_is_empty_def
        io_bind_def io_simps sum_bind_def get_item_def as_str_def Let_def)
  have md: "remote_admin(''dbname'' \<mapsto> JNull) =
        remote_admin(''dbname'' \<mapsto> (case app_payload ''dbname'' of None \<Rightarrow> JNull | Some v \<Rightarrow> v))"
      "admin_payload(''dbname'' \<mapsto> JNull) =
        admin_payload(''dbname'' \<mapsto> (case app_payload ''dbname'' of None \<Rightarrow> JNull | Some v \<Rightarrow> v))"
    by (simp_all add: dbname)
  have differ: "\<not> py_eq (JStr ''db1.abc.rds.amazonaws.com'') (JStr ''master1.abc.rds.amazonaws.com'')"
    by simp
  have r1: "is_rds_replica_database (replica_world (Some ''other'')) app_payload
        (remote_admin(''dbname'' \<mapsto> JNull)) checked_trace =
        (Inr False, checked_trace @ [DescribeDBInstances ''db1''])"
    and r2: "is_rds_replica_database (replica_world (Some ''master1'')) app_payload
        (remote_admin(''dbname'' \<mapsto> JNull)) checked_trace =
        (Inr True, checked_trace @ [DescribeDBInstances ''db1''])"
    using replica [of "Some ''other''"] replica [of "Some ''master1''"] by simp_all
  note other = set_secret_topology [OF cur(1) [of "Some ''other''"] pend(1) [of "Some ''other''"]
      conn(1) [of "Some ''other''"] user alt same_user hosts conn(1) [of "Some ''other''"]
      marn master(1) [of "Some ''other''"] md(1) mh(1),
      where ?tr6.0 = "checked_trace @ [DescribeDBInstances ''db1'']"]
  note same = set_secret_topology [OF cur(2) pend(2) conn(2) user alt same_user hosts conn(2)
      marn master(2) md(2) mh(2)]
  note master1 = set_secret_topology [OF cur(1) [of "Some ''master1''"]
      pend(1) [of "Some ''master1''"] conn(1) [of "Some ''master1''"] user alt same_user hosts
      conn(1) [of "Some ''master1''"] marn master(1) [of "Some ''master1''"] md(1) mh(1),
      where ?tr6.0 = "checked_trace @ [DescribeDBInstances ''db1'']"]
  have "set_secret (replica_world (Some ''other'')) ''arn'' ''v2'' [] =
      (Inl (ValueError
         ''Current database host %s is not the same host as/rds replica of master %s''),
       checked_trace @ [DescribeDBInstances ''db1'']) \<and>
      filter is_db_call (checked_trace @ [DescribeDBInstances ''db1'']) =
        filter is_db_call checked_trace"
    by (rule mp [OF conjunct1 [OF other] conjI [OF differ r1]])
  then have a: "set_secret (replica_world (Some ''other'')) ''arn'' ''v2'' [] =
      (Inl (ValueError
         ''Current database host %s is not the same host as/rds replica of master %s''),
       checked_trace @ [DescribeDBInstances ''db1''])"
    by (rule conjunct1)
  have b: "set_secret ?same ''arn'' ''v2'' [] =
      set_secret_as_master ?same app_payload clone_payload
        (admin_payload(''dbname'' \<mapsto> JNull)) checked_trace \<and>
      logs_in_with ?same (admin_payload(''dbname'' \<mapsto> JNull)) checked_trace
        (set_secret ?same ''arn'' ''v2'' [])"
    by (rule mp [OF conjunct1 [OF conjunct2 [OF same]] hosts(3)])
  have run: "set_secret_as_master ?same app_payload clone_payload
      (admin_payload(''dbname'' \<mapsto> JNull)) checked_trace =
      (Inl TypeError,
       checked_trace @
         [Connect admin_conn,
          Execute admin_conn ''SELECT quote_ident(%s)'' [JStr ''app_clone''],
          Close admin_conn])"
    by (simp add: set_secret_as_master_def get_connection_def connect_and_authenticate_def
        get_ssl_config_def cur_execute_def conn_close_def fetchone_0_def io_finally_def
        rotation_world_def silent_world_def admin_payload_def clone_payload_def
        app_payload_def admin_conn_def get_item_def io_bind_def io_simps Let_def)
  from b run have b': "snd (set_secret ?same ''arn'' ''v2'' []) =
      checked_trace @
        [Connect admin_conn,
         Execute admin_conn ''SELECT quote_ident(%s)'' [JStr ''app_clone''],
         Close admin_conn]"
    by simp
  have c: "set_secret (replica_world (Some ''master1'')) ''arn'' ''v2'' [] =
      set_secret_as_master (replica_world (Some ''master1'')) app_payload clone_payload
        (remote_admin(''dbname'' \<mapsto> JNull)) (checked_trace @ [DescribeDBInstances ''db1'']) \<and>
      logs_in_with (replica_world (Some ''master1'')) (remote_admin(''dbname'' \<mapsto> JNull))
        (checked_trace @ [DescribeDBInstances ''db1''])
        (set_secret (replica_world (Some ''master1'')) ''arn'' ''v2'' [])"
    by (rule mp [OF conjunct2 [OF conjunct2 [OF master1]] conjI [OF differ r2]])
  from a b b' c show ?thesis by (intro conjI) (erule conjunct1 conjunct2 | assumption)+
qed

end
